theory Spec2Isabelle
  imports
    Main
    "HOL-Library.Sublist"
    "HOL-Library.AList"
    "HOL-Library.List_Lexorder"
    "HOL-Library.Char_ord"
begin

section \<open>Python strings\<close>

text \<open>
  The program of \<^verbatim>\<open>logic_model.py\<close> works on Python strings. They are modelled as
  \<^typ>\<open>string\<close>, restricted to ASCII: the case conversions below change the 26 Latin
  letters and leave every other character alone, which is what \<^verbatim>\<open>str.lower\<close>,
  \<^verbatim>\<open>str.upper\<close> and \<^verbatim>\<open>str.title\<close> do on ASCII text.
\<close>

definition upper_letters :: string where
  "upper_letters = ''ABCDEFGHIJKLMNOPQRSTUVWXYZ''"

definition lower_letters :: string where
  "lower_letters = ''abcdefghijklmnopqrstuvwxyz''"

definition lower_char :: "char \<Rightarrow> char" where
  "lower_char c = (case map_of (zip upper_letters lower_letters) c of None \<Rightarrow> c | Some d \<Rightarrow> d)"

definition upper_char :: "char \<Rightarrow> char" where
  "upper_char c = (case map_of (zip lower_letters upper_letters) c of None \<Rightarrow> c | Some d \<Rightarrow> d)"

definition is_cased :: "char \<Rightarrow> bool" where
  "is_cased c = (c \<in> set (upper_letters @ lower_letters))"

text \<open>\<^verbatim>\<open>s.lower()\<close> and \<^verbatim>\<open>s.upper()\<close>.\<close>

definition lower :: "string \<Rightarrow> string" where
  "lower s = map lower_char s"

definition upper :: "string \<Rightarrow> string" where
  "upper s = map upper_char s"

text \<open>
  \<^verbatim>\<open>s.title()\<close>: a letter that follows a letter is lowered, a letter that follows
  anything else (or starts the string) is raised, other characters are kept. The flag
  says whether the previous character was a letter.
\<close>

fun title_from :: "bool \<Rightarrow> string \<Rightarrow> string" where
  "title_from prev [] = []"
| "title_from prev (c # cs) =
     (if is_cased c then (if prev then lower_char c else upper_char c) # title_from True cs
      else c # title_from False cs)"

definition title :: "string \<Rightarrow> string" where
  "title s = title_from False s"

text \<open>\<^verbatim>\<open>s.capitalize()\<close>: first character raised, the rest lowered.\<close>

definition capitalize :: "string \<Rightarrow> string" where
  "capitalize s = (case s of [] \<Rightarrow> [] | c # cs \<Rightarrow> upper_char c # lower cs)"

text \<open>
  \<^verbatim>\<open>s.replace(old, new)\<close>: the occurrences of \<open>old\<close> are found from the left and do
  not overlap. With an empty \<open>old\<close> Python puts \<open>new\<close> before every character and at
  the end.
\<close>

function replace_from :: "string \<Rightarrow> string \<Rightarrow> string \<Rightarrow> string" where
  "replace_from old new [] = []"
| "replace_from old new (c # cs) =
     (if old \<noteq> [] \<and> prefix old (c # cs)
      then new @ replace_from old new (drop (length old) (c # cs))
      else c # replace_from old new cs)"
  by pat_completeness auto
termination
  by (relation "measure (\<lambda>(old, new, s). length s)") auto

definition replace :: "string \<Rightarrow> string \<Rightarrow> string \<Rightarrow> string" where
  "replace old new s =
     (if old = [] then new @ concat (map (\<lambda>c. c # new) s) else replace_from old new s)"

text \<open>\<^verbatim>\<open>sub in s\<close> on strings: \<open>sub\<close> occurs in \<open>s\<close> as a contiguous piece.\<close>

fun str_contains :: "string \<Rightarrow> string \<Rightarrow> bool" where
  "str_contains sub [] = (sub = [])"
| "str_contains sub (c # cs) = (prefix sub (c # cs) \<or> str_contains sub cs)"

text \<open>The format specification \<^verbatim>\<open>{s:<n}\<close>: pad with spaces on the right up to width \<open>n\<close>.\<close>

definition ljust :: "nat \<Rightarrow> string \<Rightarrow> string" where
  "ljust n s = s @ replicate (n - length s) CHR '' ''"

text \<open>\<^verbatim>\<open>sep.join(xs)\<close>.\<close>

fun join :: "string \<Rightarrow> string list \<Rightarrow> string" where
  "join sep [] = []"
| "join sep [x] = x"
| "join sep (x # y # ys) = x @ sep @ join sep (y # ys)"

text \<open>\<^verbatim>\<open>str(n)\<close> for an integer: decimal digits, a minus sign for a negative number.\<close>

definition digit_char :: "nat \<Rightarrow> char" where
  "digit_char d = ''0123456789'' ! d"

function str_nat :: "nat \<Rightarrow> string" where
  "str_nat n = (if n < 10 then [digit_char n] else str_nat (n div 10) @ [digit_char (n mod 10)])"
  by pat_completeness auto
termination
  by (relation "measure id") auto

declare str_nat.simps [simp del]

definition str_int :: "int \<Rightarrow> string" where
  "str_int i = (if i < 0 then CHR ''-'' # str_nat (nat (- i)) else str_nat (nat i))"

text \<open>
  \<^verbatim>\<open>int(s)\<close> on a string: surrounding white space is dropped, one sign is allowed, then
  at least one digit, with single underscores allowed between digits. Anything else
  raises \<^verbatim>\<open>ValueError\<close>, which is \<open>None\<close> here. (The interpreter's configurable limit
  on the number of digits is left out.)
\<close>

definition is_space :: "char \<Rightarrow> bool" where
  "is_space c = (c \<in> set [CHR '' '', CHR 0x09, CHR 0x0A, CHR 0x0B, CHR 0x0C, CHR 0x0D])"

definition strip :: "string \<Rightarrow> string" where
  "strip s = rev (dropWhile is_space (rev (dropWhile is_space s)))"

definition digit_value :: "char \<Rightarrow> nat option" where
  "digit_value c = map_of (zip ''0123456789'' [0 ..< 10]) c"

text \<open>
  The digits are read from the left into an accumulator; the flag says whether the
  previous character was a digit, which is where an underscore may stand.
\<close>

fun parse_digits :: "bool \<Rightarrow> nat \<Rightarrow> string \<Rightarrow> nat option" where
  "parse_digits after_digit acc [] = (if after_digit then Some acc else None)"
| "parse_digits after_digit acc (c # cs) =
     (if c = CHR ''_'' then (if after_digit \<and> cs \<noteq> [] then parse_digits False acc cs else None)
      else (case digit_value c of
              None \<Rightarrow> None
            | Some d \<Rightarrow> parse_digits True (10 * acc + d) cs))"

definition py_int :: "string \<Rightarrow> int option" where
  "py_int s =
     (case strip s of
        [] \<Rightarrow> None
      | c # cs \<Rightarrow>
          if c = CHR ''-'' then map_option (\<lambda>n. - int n) (parse_digits False 0 cs)
          else if c = CHR ''+'' then map_option int (parse_digits False 0 cs)
          else map_option int (parse_digits False 0 (c # cs)))"

section \<open>Python values\<close>

text \<open>
  The records that the remote API returns are turned into dictionaries by
  \<^verbatim>\<open>to_dict()\<close>. A dictionary is an association list in insertion order; the values are
  \<^verbatim>\<open>None\<close>, booleans, integers, strings and nested dictionaries. Floating point numbers
  are not part of the model.
\<close>

datatype pyval =
    PNone
  | PBool bool
  | PInt int
  | PStr string
  | PDict "(string \<times> pyval) list"

type_synonym pydict = "(string \<times> pyval) list"

text \<open>Truth value of an object, as \<^verbatim>\<open>if x:\<close> and \<^verbatim>\<open>not x\<close> take it.\<close>

fun truthy :: "pyval \<Rightarrow> bool" where
  "truthy PNone = False"
| "truthy (PBool b) = b"
| "truthy (PInt i) = (i \<noteq> 0)"
| "truthy (PStr s) = (s \<noteq> [])"
| "truthy (PDict d) = (d \<noteq> [])"

text \<open>\<^verbatim>\<open>isinstance(x, dict)\<close>.\<close>

fun is_dict :: "pyval \<Rightarrow> bool" where
  "is_dict (PDict d) = True"
| "is_dict _ = False"

text \<open>\<^verbatim>\<open>d.get(k, default)\<close>; \<^verbatim>\<open>d.get(k)\<close> is \<open>dict_get d k PNone\<close>.\<close>

definition dict_get :: "pydict \<Rightarrow> string \<Rightarrow> pyval \<Rightarrow> pyval" where
  "dict_get d k dflt = (case map_of d k of None \<Rightarrow> dflt | Some v \<Rightarrow> v)"

text \<open>\<^verbatim>\<open>list(d.keys())\<close>, in insertion order.\<close>

definition keys :: "('k \<times> 'v) list \<Rightarrow> 'k list" where
  "keys d = map fst d"

text \<open>
  \<^verbatim>\<open>repr\<close> and \<^verbatim>\<open>str\<close>. A string is quoted with single quotes by \<^verbatim>\<open>repr\<close>; the
  escapes that Python adds for quotes, backslashes and control characters are left out.
\<close>

definition quote :: "string \<Rightarrow> string" where
  "quote s = CHR 0x27 # s @ [CHR 0x27]"

fun py_repr :: "pyval \<Rightarrow> string" where
  "py_repr PNone = ''None''"
| "py_repr (PBool b) = (if b then ''True'' else ''False'')"
| "py_repr (PInt i) = str_int i"
| "py_repr (PStr s) = quote s"
| "py_repr (PDict d) =
     ''{'' @ join '', '' (map (\<lambda>kv. quote (fst kv) @ '': '' @ py_repr (snd kv)) d) @ ''}''"

definition py_str :: "pyval \<Rightarrow> string" where
  "py_str v = (case v of PStr s \<Rightarrow> s | _ \<Rightarrow> py_repr v)"

text \<open>\<^verbatim>\<open>repr\<close> of a list of strings, as an f-string prints \<^verbatim>\<open>list(d.keys())\<close>.\<close>

definition repr_str_list :: "string list \<Rightarrow> string" where
  "repr_str_list xs = ''['' @ join '', '' (map quote xs) @ '']''"

section \<open>The remote API and the trace of a run\<close>

text \<open>
  The client library \<^verbatim>\<open>cfbd\<close> is outside the program. A call of it either returns a
  list of records or raises: \<^verbatim>\<open>ApiException\<close>, or some other exception. The string
  is what \<^verbatim>\<open>str(e)\<close> gives.
\<close>

datatype exn = ApiException string | PyException string

record roster_player =
  name :: string
  position :: "string option"

record player_stat =
  player :: string
  to_dict :: pydict

text \<open>
  The three operations the program calls, with the arguments it passes, and the
  \<^verbatim>\<open>access_token\<close> of the global \<^verbatim>\<open>configuration\<close> (\<^verbatim>\<open>os.getenv\<close> gives a string or
  \<^verbatim>\<open>None\<close>). A record of the advanced statistics is given by its \<^verbatim>\<open>to_dict()\<close>.
\<close>

record api =
  access_token :: "string option"
  get_advanced_season_stats :: "int \<Rightarrow> string \<Rightarrow> exn + pydict list"
  get_roster :: "string \<Rightarrow> int \<Rightarrow> exn + roster_player list"
  get_player_season_stats :: "int \<Rightarrow> string \<Rightarrow> string \<Rightarrow> exn + player_stat list"

text \<open>
  What a run does to the outside, in order: a line printed, a prompt of \<^verbatim>\<open>input\<close>,
  a request sent to the API.
\<close>

datatype event =
    Print string
  | Input string
  | AdvancedSeasonStatsRequest int string
  | RosterRequest string int
  | PlayerSeasonStatsRequest int string string

fun is_request :: "event \<Rightarrow> bool" where
  "is_request (Print s) = False"
| "is_request (Input s) = False"
| "is_request _ = True"

fun is_player_stats_request :: "event \<Rightarrow> bool" where
  "is_player_stats_request (PlayerSeasonStatsRequest y t c) = True"
| "is_player_stats_request _ = False"

definition POSITION_STAT_MAP :: "(string \<times> string list) list" where
  "POSITION_STAT_MAP =
    [(''QB'', [''passing'', ''rushing'', ''receiving'', ''fumbles'']),
     (''RB'', [''rushing'', ''receiving'', ''fumbles'']),
     (''WR'', [''receiving'', ''rushing'', ''fumbles'']),
     (''TE'', [''receiving'', ''rushing'', ''fumbles'']),
     (''FB'', [''rushing'', ''receiving'', ''fumbles'']),
     (''DB'', [''defensive'', ''interceptions'', ''fumbles'']),
     (''CB'', [''defensive'', ''interceptions'', ''fumbles'']),
     (''S'', [''defensive'', ''interceptions'', ''fumbles'']),
     (''LB'', [''defensive'', ''interceptions'', ''fumbles'']),
     (''DE'', [''defensive'', ''interceptions'', ''fumbles'']),
     (''DT'', [''defensive'', ''interceptions'', ''fumbles'']),
     (''DL'', [''defensive'', ''interceptions'', ''fumbles'']),
     (''K'', [''kicking'']),
     (''P'', [''punting'']),
     (''LS'', []),
     (''OL'', [])]"

definition key_not_found :: string where
  "key_not_found =
     ''API key not found. Please set the CFBD_API_KEY environment variable '' @
     ''in a .env file or your system environment.''"

text \<open>\<^verbatim>\<open>not configuration.access_token\<close>: the token is \<^verbatim>\<open>None\<close> or empty.\<close>

definition no_token :: "api \<Rightarrow> bool" where
  "no_token a = (case access_token a of None \<Rightarrow> True | Some t \<Rightarrow> t = [])"

section \<open>fetch\_advanced\_stats\<close>

text \<open>The body of the \<^verbatim>\<open>try\<close>: it returns a value or raises.\<close>

definition fetch_advanced_stats_try :: "api \<Rightarrow> string \<Rightarrow> int \<Rightarrow> event list \<times> (exn + pydict option)" where
  "fetch_advanced_stats_try a team_name year =
     (if no_token a then ([], Inl (PyException key_not_found))
      else
        let evs = [Print (''Fetching advanced stats for '' @ team_name @ '' in '' @ str_int year @ ''...''),
                   AdvancedSeasonStatsRequest year team_name]
        in case get_advanced_season_stats a year team_name of
             Inl e \<Rightarrow> (evs, Inl e)
           | Inr response \<Rightarrow>
               (case response of
                  r # rs \<Rightarrow> (evs, Inr (Some r))
                | [] \<Rightarrow>
                    (evs @ [Print (''No advanced stats found for '' @ team_name @ '' in '' @ str_int year @
                                   ''. Please check the team name and year.'')],
                     Inr None)))"

text \<open>The two \<^verbatim>\<open>except\<close> clauses around it.\<close>

definition fetch_advanced_stats :: "api \<Rightarrow> string \<Rightarrow> int \<Rightarrow> event list \<times> pydict option" where
  "fetch_advanced_stats a team_name year =
     (case fetch_advanced_stats_try a team_name year of
        (evs, Inr r) \<Rightarrow> (evs, r)
      | (evs, Inl (ApiException e)) \<Rightarrow>
          (evs @ [Print (''CFBD API Error for '' @ team_name @ '': '' @ e)], None)
      | (evs, Inl (PyException e)) \<Rightarrow>
          (evs @ [Print (''An unexpected error occurred for '' @ team_name @ '': '' @ e)], None))"

section \<open>compare\_teams\<close>

definition display_categories :: "string list" where
  "display_categories = [''total'', ''offense'', ''defense'']"

text \<open>The items of a value that \<^verbatim>\<open>isinstance\<close> has found to be a dictionary.\<close>

fun dict_items :: "pyval \<Rightarrow> pydict" where
  "dict_items (PDict d) = d"
| "dict_items _ = []"

text \<open>
  The inner loop runs over \<^verbatim>\<open>sorted(stats_a_cat.keys())\<close> and reads both values with
  \<^verbatim>\<open>get(stat_name, "N/A")\<close>; \<open>compare_rows\<close> is the list of the triples it computes
  and \<open>format_row\<close> the line it prints for one.
\<close>

definition compare_rows :: "pydict \<Rightarrow> pydict \<Rightarrow> (string \<times> pyval \<times> pyval) list" where
  "compare_rows stats_a_cat stats_b_cat =
     map (\<lambda>stat_name. (stat_name,
                         dict_get stats_a_cat stat_name (PStr ''N/A''),
                         dict_get stats_b_cat stat_name (PStr ''N/A'')))
         (sort (keys stats_a_cat))"

fun format_row :: "string \<times> pyval \<times> pyval \<Rightarrow> string" where
  "format_row (stat_name, value_a, value_b) =
     ljust 30 (title (replace ''_'' '' '' stat_name)) @ ljust 20 (py_str value_a) @ ljust 20 (py_str value_b)"

text \<open>The table of one category, printed when the test of line 82 holds.\<close>

definition category_table :: "string \<Rightarrow> string \<Rightarrow> pyval \<Rightarrow> pyval \<Rightarrow> event list" where
  "category_table team_a_name team_b_name stats_a_cat stats_b_cat =
     (if truthy stats_a_cat \<and> truthy stats_b_cat \<and> is_dict stats_a_cat \<and> is_dict stats_b_cat
      then Print (ljust 30 ''Statistic'' @ ljust 20 team_a_name @ ljust 20 team_b_name) #
           Print (replicate 70 CHR ''-'') #
           map (\<lambda>r. Print (format_row r)) (compare_rows (dict_items stats_a_cat) (dict_items stats_b_cat))
      else [])"

text \<open>One round of the loop over the categories.\<close>

definition compare_category :: "string \<Rightarrow> string \<Rightarrow> pydict \<Rightarrow> pydict \<Rightarrow> string \<Rightarrow> event list" where
  "compare_category team_a_name team_b_name stats_a stats_b category_name =
     Print (''\<newline>--- '' @ capitalize category_name @ '' ---'') #
     category_table team_a_name team_b_name
       (dict_get stats_a category_name PNone) (dict_get stats_b category_name PNone)"

definition compare_teams :: "api \<Rightarrow> string \<Rightarrow> string \<Rightarrow> int \<Rightarrow> event list" where
  "compare_teams a team_a_name team_b_name year =
     (let (evs_a, stats_a) = fetch_advanced_stats a team_a_name year;
          (evs_b, stats_b) = fetch_advanced_stats a team_b_name year;
          evs = Print (''--- Comparing Advanced Season Stats for '' @ team_a_name @ '' vs '' @
                       team_b_name @ '' ('' @ str_int year @ '') ---'') # evs_a @ evs_b
      in case (stats_a, stats_b) of
           (Some sa, Some sb) \<Rightarrow>
             if sa = [] \<or> sb = [] then evs
             else evs @ concat (map (compare_category team_a_name team_b_name sa sb) display_categories)
         | _ \<Rightarrow> evs)"

section \<open>get\_player\_position\<close>

text \<open>The loop over the roster: the first entry whose name matches returns.\<close>

fun scan_roster :: "string \<Rightarrow> roster_player list \<Rightarrow> string option" where
  "scan_roster player_name [] = None"
| "scan_roster player_name (p # ps) =
     (if lower (name p) = lower player_name then position p else scan_roster player_name ps)"

definition get_player_position_try :: "api \<Rightarrow> string \<Rightarrow> string \<Rightarrow> int \<Rightarrow> event list \<times> (exn + string option)" where
  "get_player_position_try a player_name team_name year =
     (if no_token a then ([], Inl (PyException key_not_found))
      else case get_roster a team_name year of
             Inl e \<Rightarrow> ([RosterRequest team_name year], Inl e)
           | Inr roster \<Rightarrow> ([RosterRequest team_name year], Inr (scan_roster player_name roster)))"

definition get_player_position :: "api \<Rightarrow> string \<Rightarrow> string \<Rightarrow> int \<Rightarrow> event list \<times> string option" where
  "get_player_position a player_name team_name year =
     (case get_player_position_try a player_name team_name year of
        (evs, Inr r) \<Rightarrow> (evs, r)
      | (evs, Inl (ApiException e)) \<Rightarrow>
          (evs @ [Print (''CFBD API Error while fetching roster for '' @ team_name @ '': '' @ e)], None)
      | (evs, Inl (PyException e)) \<Rightarrow>
          (evs @ [Print (''An unexpected error occurred while fetching roster: '' @ e)], None))"

section \<open>get\_player\_stats\_by\_name\<close>

definition excluded_fields :: "string list" where
  "excluded_fields = [''player'', ''team'', ''conference'', ''athlete_id'', ''category'']"

text \<open>
  The loop over \<^verbatim>\<open>player_stats.items()\<close>: an assignment to
  \<^verbatim>\<open>combined_stats[key]\<close> replaces the value of a key that is there and appends a new
  key at the end.
\<close>

fun merge_stats :: "string \<Rightarrow> pydict \<Rightarrow> pydict \<Rightarrow> pydict" where
  "merge_stats category combined_stats [] = combined_stats"
| "merge_stats category combined_stats ((stat_name, v) # items) =
     merge_stats category
       (if stat_name \<notin> set excluded_fields
        then AList.update (category @ ''_'' @ stat_name) v combined_stats
        else combined_stats)
       items"

text \<open>
  \<^verbatim>\<open>next((p.to_dict() for p in response if p.player.lower() == player_name.lower()), None)\<close>
\<close>

fun first_match :: "string \<Rightarrow> player_stat list \<Rightarrow> pydict option" where
  "first_match player_name [] = None"
| "first_match player_name (p # ps) =
     (if lower (player p) = lower player_name then Some (to_dict p) else first_match player_name ps)"

text \<open>What one response adds to the combined statistics (lines 145 to 152).\<close>

definition merge_response :: "string \<Rightarrow> string \<Rightarrow> pydict \<Rightarrow> player_stat list \<Rightarrow> pydict" where
  "merge_response player_name category combined_stats response =
     (if response \<noteq> [] then
        (case first_match player_name response of
           None \<Rightarrow> combined_stats
         | Some player_stats \<Rightarrow>
             if player_stats \<noteq> [] then merge_stats category combined_stats player_stats
             else combined_stats)
      else combined_stats)"

text \<open>
  The loop over the categories. A request that raises leaves the loop, and the
  \<^verbatim>\<open>try\<close> block with it.
\<close>

fun fetch_categories ::
  "api \<Rightarrow> string \<Rightarrow> string \<Rightarrow> int \<Rightarrow> string list \<Rightarrow> pydict \<Rightarrow> event list \<times> (exn + pydict)" where
  "fetch_categories a player_name team_name year [] combined_stats = ([], Inr combined_stats)"
| "fetch_categories a player_name team_name year (category # categories) combined_stats =
     (let evs = [Print (''Fetching '' @ category @ '' stats...''),
                 PlayerSeasonStatsRequest year team_name category]
      in case get_player_season_stats a year team_name category of
           Inl e \<Rightarrow> (evs, Inl e)
         | Inr response \<Rightarrow>
             (case fetch_categories a player_name team_name year categories
                     (merge_response player_name category combined_stats response) of
                (evs', r) \<Rightarrow> (evs @ evs', r)))"

text \<open>The label of a key of the combined statistics (lines 159 to 170).\<close>

definition display_key :: "string \<Rightarrow> string" where
  "display_key stat_key =
     (let display_key =
            replace ''Fumbles '' []
              (replace ''Receiving '' []
                (replace ''Rushing '' []
                  (replace ''Passing '' [] (title (replace ''_'' '' '' stat_key)))))
      in if str_contains ''passing_'' stat_key then ''Passing '' @ display_key
         else if str_contains ''rushing_'' stat_key then ''Rushing '' @ display_key
         else if str_contains ''receiving_'' stat_key then ''Receiving '' @ display_key
         else if str_contains ''fumbles_'' stat_key then ''Fumbles '' @ display_key
         else display_key)"

definition print_combined :: "string \<Rightarrow> string \<Rightarrow> string \<Rightarrow> int \<Rightarrow> pydict \<Rightarrow> event list" where
  "print_combined player_name pos team_name year combined_stats =
     (if combined_stats \<noteq> [] then
        Print (''\<newline>--- Player Stats for '' @ player_name @ '' ('' @ pos @ '') ---'') #
        map (\<lambda>stat_key. Print (ljust 35 (display_key stat_key) @ '': '' @
                                 py_str (dict_get combined_stats stat_key PNone)))
            (sort (keys combined_stats))
      else [Print (''No stats found for '' @ player_name @ '' on team '' @ quote team_name @
                   '' in '' @ str_int year @ ''.'')])"

text \<open>The \<^verbatim>\<open>try\<close> block of lines 133 to 175 and its two \<^verbatim>\<open>except\<close> clauses.\<close>

definition fetch_and_print :: "api \<Rightarrow> string \<Rightarrow> string \<Rightarrow> string \<Rightarrow> int \<Rightarrow> string list \<Rightarrow> event list" where
  "fetch_and_print a player_name pos team_name year categories =
     (case fetch_categories a player_name team_name year categories [] of
        (evs, Inr combined_stats) \<Rightarrow>
          evs @ print_combined player_name pos team_name year combined_stats
      | (evs, Inl (ApiException e)) \<Rightarrow> evs @ [Print (''CFBD API Error: '' @ e)]
      | (evs, Inl (PyException e)) \<Rightarrow> evs @ [Print (''An unexpected error occurred: '' @ e)])"

definition not_in_roster :: "string \<Rightarrow> string \<Rightarrow> int \<Rightarrow> string" where
  "not_in_roster player_name team_name year =
     ''Could not find player '' @ quote player_name @ '' or team '' @ quote team_name @
     '' in the roster for '' @ str_int year @ ''. Please check the names and try again.''"

definition unsupported_position :: "string \<Rightarrow> string" where
  "unsupported_position pos =
     ''Player position '' @ quote pos @
     '' is not supported for detailed stats fetching. Supported positions are '' @
     repr_str_list (keys POSITION_STAT_MAP) @ ''.''"

definition get_player_stats_by_name :: "api \<Rightarrow> string \<Rightarrow> string \<Rightarrow> int \<Rightarrow> event list" where
  "get_player_stats_by_name a player_name team_name year =
     (let (evs_pos, position) = get_player_position a player_name team_name year;
          evs = Print (''--- Searching for stats for '' @ player_name @ '' on '' @ team_name @
                       '' ('' @ str_int year @ '') ---'') # evs_pos
      in case position of
           None \<Rightarrow> evs @ [Print (not_in_roster player_name team_name year)]
         | Some pos \<Rightarrow>
             if pos = [] then evs @ [Print (not_in_roster player_name team_name year)]
             else (case map_of POSITION_STAT_MAP (upper pos) of
                     None \<Rightarrow> evs @ [Print (unsupported_position pos)]
                   | Some categories \<Rightarrow>
                       if categories = [] then evs @ [Print (unsupported_position pos)]
                       else evs @ fetch_and_print a player_name pos team_name year categories))"

section \<open>The menu\<close>

text \<open>
  The lines typed by the user are a list; \<^verbatim>\<open>input\<close> shows its prompt and takes the
  next line, and raises \<^verbatim>\<open>EOFError\<close>, which nothing catches, when there is none.
\<close>

datatype exit = Goodbye | EOFError

definition menu :: "event list" where
  "menu =
    [Print ''\<newline>What would you like to do?'',
     Print ''1. Compare two teams' advanced stats'',
     Print ''2. Look up a player's season stats'',
     Print ''3. Exit'',
     Input ''Enter your choice (1, 2, or 3): '']"

definition compare_prompts :: "event list" where
  "compare_prompts =
    [Input ''Enter the name of the first team: '',
     Input ''Enter the name of the second team: '',
     Input ''Enter the year: '']"

definition lookup_prompts :: "event list" where
  "lookup_prompts =
    [Input ''Enter the player's full name (e.g., 'Joe Burrow'): '',
     Input ''Enter the player's team: '',
     Input ''Enter the year: '']"

definition invalid_year :: event where
  "invalid_year = Print ''Invalid year. Please enter a valid integer for the year.''"

text \<open>The two \<^verbatim>\<open>try\<close> blocks of the menu: \<^verbatim>\<open>int\<close> raises before the call is made.\<close>

definition choice_compare :: "api \<Rightarrow> string \<Rightarrow> string \<Rightarrow> string \<Rightarrow> event list" where
  "choice_compare a team_a_name team_b_name year_input =
     (case py_int year_input of
        None \<Rightarrow> [invalid_year]
      | Some year \<Rightarrow> compare_teams a team_a_name team_b_name year)"

definition choice_lookup :: "api \<Rightarrow> string \<Rightarrow> string \<Rightarrow> string \<Rightarrow> event list" where
  "choice_lookup a player_name team_name year_input =
     (case py_int year_input of
        None \<Rightarrow> [invalid_year]
      | Some year \<Rightarrow> get_player_stats_by_name a player_name team_name year)"

definition after :: "event list \<Rightarrow> event list \<times> exit \<Rightarrow> event list \<times> exit" where
  "after evs r = (evs @ fst r, snd r)"

fun main_loop :: "api \<Rightarrow> string list \<Rightarrow> event list \<times> exit" where
  "main_loop a [] = (menu, EOFError)"
| "main_loop a (choice # ins) =
     (if choice = ''1'' then
        (case ins of
           team_a_name # team_b_name # year_input # rest \<Rightarrow>
             after (menu @ compare_prompts @ choice_compare a team_a_name team_b_name year_input)
                   (main_loop a rest)
         | _ \<Rightarrow> (menu @ take (Suc (length ins)) compare_prompts, EOFError))
      else if choice = ''2'' then
        (case ins of
           player_name # team_name # year_input # rest \<Rightarrow>
             after (menu @ lookup_prompts @ choice_lookup a player_name team_name year_input)
                   (main_loop a rest)
         | _ \<Rightarrow> (menu @ take (Suc (length ins)) lookup_prompts, EOFError))
      else if choice = ''3'' then (menu @ [Print ''Exiting. Goodbye!''], Goodbye)
      else after (menu @ [Print ''Invalid choice. Please enter 1, 2, or 3.'']) (main_loop a ins))"

definition main :: "api \<Rightarrow> string list \<Rightarrow> event list \<times> exit" where
  "main a ins =
     after [Print ''Welcome to the College Football Stats Comparator and Player Lookup!'']
           (main_loop a ins)"

section \<open>Auxiliary notions for the statements\<close>

text \<open>The four removals of line 159 to 161, in the order the program applies them.\<close>

definition strip_labels :: "string \<Rightarrow> string" where
  "strip_labels s =
     replace ''Fumbles '' [] (replace ''Receiving '' [] (replace ''Rushing '' [] (replace ''Passing '' [] s)))"

text \<open>None of the four words that line 159 to 161 remove occurs in a string.\<close>

definition label_free :: "string \<Rightarrow> bool" where
  "label_free t =
     (\<forall>w \<in> set [''Passing '', ''Rushing '', ''Receiving '', ''Fumbles '']. \<not> str_contains w t)"

section \<open>Example data\<close>

text \<open>
  Three teams and a roster, for trying the functions on concrete input. The first team
  has no defense section, the second has all three, the third has an empty total and an
  offense that is not a dictionary.
\<close>

definition lsu_stats :: pydict where
  "lsu_stats =
    [(''team'', PStr ''LSU''),
     (''total'', PDict [(''wins'', PInt 10)]),
     (''offense'', PDict [(''plays'', PInt 70), (''ppa'', PInt 1)])]"

definition clemson_stats :: pydict where
  "clemson_stats =
    [(''team'', PStr ''Clemson''),
     (''total'', PDict [(''wins'', PInt 10), (''losses'', PInt 2)]),
     (''offense'', PDict [(''drives'', PInt 12), (''plays'', PInt 65)]),
     (''defense'', PDict [(''plays'', PInt 60)])]"

definition rice_stats :: pydict where
  "rice_stats =
    [(''team'', PStr ''Rice''),
     (''total'', PDict []),
     (''offense'', PStr ''n/a''),
     (''defense'', PDict [(''plays'', PInt 55)])]"

definition lsu_roster :: "roster_player list" where
  "lsu_roster =
    [\<lparr>name = ''Clyde Edwards-Helaire'', position = Some ''RB''\<rparr>,
     \<lparr>name = ''Joe Burrow'', position = Some ''qb''\<rparr>,
     \<lparr>name = ''JOE BURROW'', position = Some ''WR''\<rparr>,
     \<lparr>name = ''Blake Ferguson'', position = Some ''LS''\<rparr>,
     \<lparr>name = ''Sam Coach'', position = Some ''HC''\<rparr>]"

definition burrow_passing :: player_stat where
  "burrow_passing =
    \<lparr>player = ''Joe Burrow'',
     to_dict = [(''season'', PInt 2019), (''player'', PStr ''Joe Burrow''), (''team'', PStr ''LSU''),
                (''conference'', PStr ''SEC''), (''athlete_id'', PInt 7), (''category'', PStr ''passing''),
                (''completions'', PInt 402)]\<rparr>"

definition brennan_passing :: player_stat where
  "brennan_passing =
    \<lparr>player = ''Myles Brennan'',
     to_dict = [(''player'', PStr ''Myles Brennan''), (''completions'', PInt 24)]\<rparr>"

definition burrow_rushing :: player_stat where
  "burrow_rushing =
    \<lparr>player = ''JOE BURROW'',
     to_dict = [(''player'', PStr ''JOE BURROW''), (''category'', PStr ''rushing''), (''carries'', PInt 115)]\<rparr>"

definition burrow_rushing_late :: player_stat where
  "burrow_rushing_late =
    \<lparr>player = ''Joe Burrow'',
     to_dict = [(''player'', PStr ''Joe Burrow''), (''carries'', PInt 0)]\<rparr>"

text \<open>
  An API that knows these teams. Requests for the team \<open>Down\<close> raise, requests of
  player statistics for the year 2020 raise, and in 2021 the rushing request raises.
\<close>

definition example_api :: api where
  "example_api =
    \<lparr>access_token = Some ''token'',
     get_advanced_season_stats = (\<lambda>year team.
        if team = ''LSU'' then Inr [lsu_stats]
        else if team = ''Clemson'' then Inr [clemson_stats]
        else if team = ''Rice'' then Inr [rice_stats]
        else if team = ''Down'' then Inl (ApiException ''(503)'')
        else Inr []),
     get_roster = (\<lambda>team year.
        if team = ''LSU'' then Inr lsu_roster
        else if team = ''Down'' then Inl (PyException ''timed out'')
        else Inr []),
     get_player_season_stats = (\<lambda>year team category.
        if year = 2020 then Inl (ApiException ''(503)'')
        else if year = 2021 \<and> category = ''rushing'' then Inl (PyException ''timed out'')
        else if team = ''LSU'' \<and> category = ''passing'' then Inr [brennan_passing, burrow_passing]
        else if team = ''LSU'' \<and> category = ''rushing'' then Inr [burrow_rushing, burrow_rushing_late]
        else Inr [])\<rparr>"

text \<open>The same API without a credential.\<close>

definition keyless_api :: api where
  "keyless_api = example_api\<lparr>access_token := None\<rparr>"

text \<open>The responses of the example API to the four requests for a quarterback.\<close>

definition lsu_responses :: "string \<Rightarrow> player_stat list" where
  "lsu_responses category =
     (if category = ''passing'' then [brennan_passing, burrow_passing]
      else if category = ''rushing'' then [burrow_rushing, burrow_rushing_late]
      else [])"

text \<open>An API whose roster lists a player with an empty position.\<close>

definition blank_position_api :: api where
  "blank_position_api =
     example_api\<lparr>get_roster := (\<lambda>team year. Inr [\<lparr>name = ''Walk On'', position = Some []\<rparr>])\<rparr>"

section \<open>Properties of the string functions\<close>

lemmas char_defs = is_cased_def upper_char_def lower_char_def upper_letters_def lower_letters_def

lemma replace_from_absent: "\<not> str_contains old s \<Longrightarrow> replace_from old new s = s"
  by (induction s) auto

lemma underscores_passing:
  "replace ''_'' '' '' (''passing_'' @ rest) = ''passing '' @ replace ''_'' '' '' rest"
  by (simp add: replace_def)

lemma underscores_rushing:
  "replace ''_'' '' '' (''rushing_'' @ rest) = ''rushing '' @ replace ''_'' '' '' rest"
  by (simp add: replace_def)

lemma underscores_receiving:
  "replace ''_'' '' '' (''receiving_'' @ rest) = ''receiving '' @ replace ''_'' '' '' rest"
  by (simp add: replace_def)

lemma underscores_fumbles:
  "replace ''_'' '' '' (''fumbles_'' @ rest) = ''fumbles '' @ replace ''_'' '' '' rest"
  by (simp add: replace_def)

lemma title_passing: "title (''passing '' @ r) = ''Passing '' @ title r"
  by (simp add: title_def char_defs)

lemma title_rushing: "title (''rushing '' @ r) = ''Rushing '' @ title r"
  by (simp add: title_def char_defs)

lemma title_receiving: "title (''receiving '' @ r) = ''Receiving '' @ title r"
  by (simp add: title_def char_defs)

lemma title_fumbles: "title (''fumbles '' @ r) = ''Fumbles '' @ title r"
  by (simp add: title_def char_defs)

lemma strip_free:
  "label_free t \<Longrightarrow>
     replace ''Passing '' [] t = t \<and> replace ''Rushing '' [] t = t \<and>
     replace ''Receiving '' [] t = t \<and> replace ''Fumbles '' [] t = t"
  by (simp add: label_free_def replace_def replace_from_absent)

lemma strip_passing: "label_free t \<Longrightarrow> strip_labels (''Passing '' @ t) = t"
  using strip_free [of t] by (simp add: strip_labels_def replace_def)

lemma strip_rushing: "label_free t \<Longrightarrow> strip_labels (''Rushing '' @ t) = t"
  using strip_free [of t] by (simp add: strip_labels_def replace_def)

lemma strip_receiving: "label_free t \<Longrightarrow> strip_labels (''Receiving '' @ t) = t"
  using strip_free [of t] by (simp add: strip_labels_def replace_def)

lemma strip_fumbles: "label_free t \<Longrightarrow> strip_labels (''Fumbles '' @ t) = t"
  using strip_free [of t] by (simp add: strip_labels_def replace_def)

lemma contains_passing: "str_contains ''passing_'' (''passing_'' @ rest)"
  by simp

lemma contains_rushing:
  "str_contains ''rushing_'' (''rushing_'' @ rest)"
  "str_contains ''passing_'' (''rushing_'' @ rest) = str_contains ''passing_'' rest"
  by simp_all

lemma contains_receiving:
  "str_contains ''receiving_'' (''receiving_'' @ rest)"
  "str_contains ''passing_'' (''receiving_'' @ rest) = str_contains ''passing_'' rest"
  "str_contains ''rushing_'' (''receiving_'' @ rest) = str_contains ''rushing_'' rest"
  by simp_all

lemma contains_fumbles:
  "str_contains ''fumbles_'' (''fumbles_'' @ rest)"
  "str_contains ''passing_'' (''fumbles_'' @ rest) = str_contains ''passing_'' rest"
  "str_contains ''rushing_'' (''fumbles_'' @ rest) = str_contains ''rushing_'' rest"
  "str_contains ''receiving_'' (''fumbles_'' @ rest) = str_contains ''receiving_'' rest"
  by simp_all

lemma display_key_strip:
  "display_key k =
     (if str_contains ''passing_'' k then ''Passing '' @ strip_labels (title (replace ''_'' '' '' k))
      else if str_contains ''rushing_'' k then ''Rushing '' @ strip_labels (title (replace ''_'' '' '' k))
      else if str_contains ''receiving_'' k then ''Receiving '' @ strip_labels (title (replace ''_'' '' '' k))
      else if str_contains ''fumbles_'' k then ''Fumbles '' @ strip_labels (title (replace ''_'' '' '' k))
      else strip_labels (title (replace ''_'' '' '' k)))"
  by (simp add: display_key_def strip_labels_def Let_def)

section \<open>The display label (claim C4)\<close>

text \<open>
  Claim C4, as the code has it. Take a key \<open>cat_rest\<close> whose category is one of
  passing, rushing, receiving and fumbles. If the title-cased remainder contains none of
  the words "Passing ", "Rushing ", "Receiving ", "Fumbles " (the program removes each of
  them wherever it stands) and the remainder contains none of the categories that the
  program tests before \<open>cat\<close>, followed by an underscore (it looks for \<open>passing_\<close>,
  \<open>rushing_\<close>, \<open>receiving_\<close>, \<open>fumbles_\<close> anywhere in the key, in this order, so
  there is no such condition for passing), then the label is the capitalised category, a
  space, and the title-cased remainder. For \<open>passing_completions\<close> this is
  "Passing Completions".
\<close>

theorem display_key_category:
  assumes cat: "cat \<in> set [''passing'', ''rushing'', ''receiving'', ''fumbles'']"
    and words: "\<forall>w \<in> set [''Passing '', ''Rushing '', ''Receiving '', ''Fumbles ''].
                  \<not> str_contains w (title (replace ''_'' '' '' rest))"
    and earlier: "\<forall>c \<in> set (takeWhile (\<lambda>c. c \<noteq> cat) [''passing'', ''rushing'', ''receiving'', ''fumbles'']).
                  \<not> str_contains (c @ ''_'') rest"
  shows "display_key (cat @ ''_'' @ rest) = capitalize cat @ '' '' @ title (replace ''_'' '' '' rest)"
proof -
  have free: "label_free (title (replace ''_'' '' '' rest))"
    using words by (simp add: label_free_def)
  consider "cat = ''passing''" | "cat = ''rushing''" | "cat = ''receiving''" | "cat = ''fumbles''"
    using cat by auto
  then show ?thesis
  proof cases
    case 1
    have "display_key (''passing_'' @ rest) = ''Passing '' @ title (replace ''_'' '' '' rest)"
      unfolding display_key_strip underscores_passing title_passing
      using free contains_passing [of rest] by (simp only: strip_passing if_True)
    then show ?thesis using 1 by (simp add: capitalize_def lower_def char_defs)
  next
    case 2
    have "\<not> str_contains ''passing_'' rest" using earlier 2 by simp
    then have "display_key (''rushing_'' @ rest) = ''Rushing '' @ title (replace ''_'' '' '' rest)"
      unfolding display_key_strip underscores_rushing title_rushing
      using free contains_rushing [of rest] by (simp only: strip_rushing if_True if_False)
    then show ?thesis using 2 by (simp add: capitalize_def lower_def char_defs)
  next
    case 3
    have "\<not> str_contains ''passing_'' rest" "\<not> str_contains ''rushing_'' rest"
      using earlier 3 by simp_all
    then have "display_key (''receiving_'' @ rest) = ''Receiving '' @ title (replace ''_'' '' '' rest)"
      unfolding display_key_strip underscores_receiving title_receiving
      using free contains_receiving [of rest] by (simp only: strip_receiving if_True if_False)
    then show ?thesis using 3 by (simp add: capitalize_def lower_def char_defs)
  next
    case 4
    have "\<not> str_contains ''passing_'' rest" "\<not> str_contains ''rushing_'' rest"
      "\<not> str_contains ''receiving_'' rest" using earlier 4 by simp_all
    then have "display_key (''fumbles_'' @ rest) = ''Fumbles '' @ title (replace ''_'' '' '' rest)"
      unfolding display_key_strip underscores_fumbles title_fumbles
      using free contains_fumbles [of rest] by (simp only: strip_fumbles if_True if_False)
    then show ?thesis using 4 by (simp add: capitalize_def lower_def char_defs)
  qed
qed

text \<open>
  The instance of the claim, the key \<open>passing_completions\<close>, and two keys whose
  remainder contains a category that is tested later or not at a word's start.
\<close>

theorem display_key_category_witness:
  "display_key (''passing'' @ ''_'' @ ''completions'') = ''Passing Completions'' \<and>
   display_key (''passing'' @ ''_'' @ ''xrushing_y'') = ''Passing Xrushing Y'' \<and>
   display_key (''rushing'' @ ''_'' @ ''xfumbles_y'') = ''Rushing Xfumbles Y''"
proof -
  have cat: "''passing'' \<in> set [''passing'', ''rushing'', ''receiving'', ''fumbles'']"
    "''rushing'' \<in> set [''passing'', ''rushing'', ''receiving'', ''fumbles'']"
    by simp_all
  have words: "\<forall>w \<in> set [''Passing '', ''Rushing '', ''Receiving '', ''Fumbles ''].
                 \<not> str_contains w (title (replace ''_'' '' '' ''completions''))"
    "\<forall>w \<in> set [''Passing '', ''Rushing '', ''Receiving '', ''Fumbles ''].
                 \<not> str_contains w (title (replace ''_'' '' '' ''xrushing_y''))"
    "\<forall>w \<in> set [''Passing '', ''Rushing '', ''Receiving '', ''Fumbles ''].
                 \<not> str_contains w (title (replace ''_'' '' '' ''xfumbles_y''))"
    by (simp_all add: replace_def title_def char_defs)
  have earlier: "\<forall>c \<in> set (takeWhile (\<lambda>c. c \<noteq> ''passing'') [''passing'', ''rushing'', ''receiving'', ''fumbles'']).
                  \<not> str_contains (c @ ''_'') ''completions''"
    "\<forall>c \<in> set (takeWhile (\<lambda>c. c \<noteq> ''passing'') [''passing'', ''rushing'', ''receiving'', ''fumbles'']).
                  \<not> str_contains (c @ ''_'') ''xrushing_y''"
    "\<forall>c \<in> set (takeWhile (\<lambda>c. c \<noteq> ''rushing'') [''passing'', ''rushing'', ''receiving'', ''fumbles'']).
                  \<not> str_contains (c @ ''_'') ''xfumbles_y''"
    by simp_all
  have labels: "capitalize ''passing'' @ '' '' @ title (replace ''_'' '' '' ''completions'') = ''Passing Completions''"
    "capitalize ''passing'' @ '' '' @ title (replace ''_'' '' '' ''xrushing_y'') = ''Passing Xrushing Y''"
    "capitalize ''rushing'' @ '' '' @ title (replace ''_'' '' '' ''xfumbles_y'') = ''Rushing Xfumbles Y''"
    by (simp_all add: replace_def title_def capitalize_def lower_def char_defs)
  show ?thesis
    using display_key_category [OF cat(1) words(1) earlier(1)]
      display_key_category [OF cat(1) words(2) earlier(2)]
      display_key_category [OF cat(2) words(3) earlier(3)]
    by (simp only: labels)
qed

text \<open>
  As the claim states it, for every key that begins with a category, it fails: in
  \<open>passing_rushing_yards\<close> the word "Rushing " of the remainder is removed as well.
\<close>

theorem display_key_counterexample:
  "display_key (''passing_'' @ ''rushing_yards'') = ''Passing Yards'' \<and>
   display_key (''passing_'' @ ''rushing_yards'') \<noteq>
     ''Passing '' @ title (replace ''_'' '' '' ''rushing_yards'')"
  by (simp add: display_key_def replace_def title_def char_defs)

section \<open>Properties of compare\_teams\<close>

lemma dict_get_absent: "k \<notin> set (keys d) \<Longrightarrow> dict_get d k dflt = dflt"
  by (simp add: dict_get_def keys_def map_of_eq_None_iff [THEN iffD2])

lemma dict_get_missing: "map_of d k = None \<Longrightarrow> dict_get d k dflt = dflt"
  by (simp add: dict_get_def)

lemma dict_get_delete: "dict_get (AList.delete k d) k dflt = dflt"
  by (simp add: dict_get_def delete_conv')

lemma category_table_dicts:
  "a \<noteq> [] \<Longrightarrow> b \<noteq> [] \<Longrightarrow>
   category_table ta tb (PDict a) (PDict b) =
     Print (ljust 30 ''Statistic'' @ ljust 20 ta @ ljust 20 tb) #
     Print (replicate 70 CHR ''-'') #
     map (\<lambda>r. Print (format_row r)) (compare_rows a b)"
  by (simp add: category_table_def)

lemma compare_rows_names: "map fst (compare_rows a b) = sort (keys a)"
  by (simp add: compare_rows_def comp_def)

lemma compare_teams_fetched:
  assumes "fetch_advanced_stats a ta y = (evs_a, Some sa)"
    and "fetch_advanced_stats a tb y = (evs_b, Some sb)"
    and "sa \<noteq> []" "sb \<noteq> []"
  shows "compare_teams a ta tb y =
           Print (''--- Comparing Advanced Season Stats for '' @ ta @ '' vs '' @ tb @
                  '' ('' @ str_int y @ '') ---'') # evs_a @ evs_b @
           concat (map (compare_category ta tb sa sb) display_categories)"
  using assms by (simp add: compare_teams_def)

lemma fetch_lsu:
  "fetch_advanced_stats example_api ''LSU'' 2019 =
     ([Print ''Fetching advanced stats for LSU in 2019...'', AdvancedSeasonStatsRequest 2019 ''LSU''],
      Some lsu_stats)"
  by (simp add: fetch_advanced_stats_def fetch_advanced_stats_try_def example_api_def no_token_def
      str_int_def str_nat.simps digit_char_def)

lemma fetch_clemson:
  "fetch_advanced_stats example_api ''Clemson'' 2019 =
     ([Print ''Fetching advanced stats for Clemson in 2019...'',
       AdvancedSeasonStatsRequest 2019 ''Clemson''],
      Some clemson_stats)"
  by (simp add: fetch_advanced_stats_def fetch_advanced_stats_try_def example_api_def no_token_def
      str_int_def str_nat.simps digit_char_def)

subsection \<open>The rows of a section (claim C5)\<close>

text \<open>
  Claim C5. When the section of a category is printed (both teams have a non-empty
  dictionary for it), the output is the heading, the column header, the rule and one row
  for each statistic key of team A's dictionary, in sorted order. So a key that only
  team B has gives no row, and for a key that team B lacks the third column is the
  string "N/A".
\<close>

theorem compare_category_rows:
  assumes a: "dict_get stats_a c PNone = PDict a"
    and b: "dict_get stats_b c PNone = PDict b"
    and ne: "a \<noteq> []" "b \<noteq> []"
  shows "compare_category ta tb stats_a stats_b c =
           Print (''\<newline>--- '' @ capitalize c @ '' ---'') #
           Print (ljust 30 ''Statistic'' @ ljust 20 ta @ ljust 20 tb) #
           Print (replicate 70 CHR ''-'') #
           map (\<lambda>k. Print (ljust 30 (title (replace ''_'' '' '' k)) @
                            ljust 20 (py_str (dict_get a k (PStr ''N/A''))) @
                            ljust 20 (py_str (dict_get b k (PStr ''N/A'')))))
               (sort (keys a))
         \<and> sorted (sort (keys a)) \<and> set (sort (keys a)) = set (keys a)
         \<and> (\<forall>k \<in> set (keys b). k \<notin> set (keys a) \<longrightarrow> k \<notin> fst ` set (compare_rows a b))
         \<and> (\<forall>k \<in> set (keys a). k \<notin> set (keys b) \<longrightarrow>
               py_str (dict_get b k (PStr ''N/A'')) = ''N/A'')"
proof -
  have "compare_category ta tb stats_a stats_b c =
           Print (''\<newline>--- '' @ capitalize c @ '' ---'') #
           Print (ljust 30 ''Statistic'' @ ljust 20 ta @ ljust 20 tb) #
           Print (replicate 70 CHR ''-'') #
           map (\<lambda>r. Print (format_row r)) (compare_rows a b)"
    using ne by (simp add: compare_category_def a b category_table_dicts)
  moreover have "map (\<lambda>r. Print (format_row r)) (compare_rows a b) =
      map (\<lambda>k. Print (ljust 30 (title (replace ''_'' '' '' k)) @
                       ljust 20 (py_str (dict_get a k (PStr ''N/A''))) @
                       ljust 20 (py_str (dict_get b k (PStr ''N/A'')))))
          (sort (keys a))"
    by (simp add: compare_rows_def comp_def)
  moreover have "\<forall>k \<in> set (keys a). k \<notin> set (keys b) \<longrightarrow>
                   py_str (dict_get b k (PStr ''N/A'')) = ''N/A''"
    by (simp add: dict_get_absent py_str_def)
  moreover have "\<forall>k \<in> set (keys b). k \<notin> set (keys a) \<longrightarrow> k \<notin> fst ` set (compare_rows a b)"
    using compare_rows_names [of a b] by (metis set_map set_sort)
  ultimately show ?thesis by simp
qed

text \<open>
  The offense sections of the two example teams: \<open>drives\<close>, which only the second team
  has, gives no row, and \<open>ppa\<close>, which only the first has, is printed with "N/A".
\<close>

theorem compare_category_rows_witness:
  "compare_category ''LSU'' ''Clemson'' lsu_stats clemson_stats ''offense'' =
     [Print ''\<newline>--- Offense ---'',
      Print (ljust 30 ''Statistic'' @ ljust 20 ''LSU'' @ ljust 20 ''Clemson''),
      Print (replicate 70 CHR ''-''),
      Print (ljust 30 ''Plays'' @ ljust 20 ''70'' @ ljust 20 ''65''),
      Print (ljust 30 ''Ppa'' @ ljust 20 ''1'' @ ljust 20 ''N/A'')]"
proof -
  have a: "dict_get lsu_stats ''offense'' PNone = PDict [(''plays'', PInt 70), (''ppa'', PInt 1)]"
    by (simp add: dict_get_def lsu_stats_def)
  have b: "dict_get clemson_stats ''offense'' PNone =
             PDict [(''drives'', PInt 12), (''plays'', PInt 65)]"
    by (simp add: dict_get_def clemson_stats_def)
  have ne: "[(''plays'', PInt 70), (''ppa'', PInt 1)] \<noteq> []"
    "[(''drives'', PInt 12), (''plays'', PInt 65)] \<noteq> []"
    by simp_all
  show ?thesis
    using compare_category_rows [OF a b ne, of "''LSU''" "''Clemson''"]
    by (simp add: keys_def dict_get_def py_str_def str_int_def str_nat.simps digit_char_def
        title_def replace_def capitalize_def lower_def char_defs)
qed

subsection \<open>A category that one team lacks (claim C6)\<close>

text \<open>
  Claim C6, as the code has it. When both teams' statistics are fetched and one of them
  has no entry for a category, the loop still prints the heading of that category, and
  nothing else for it: no column header, no rule, no row.
\<close>

theorem category_without_section:
  assumes "fetch_advanced_stats a ta y = (evs_a, Some sa)"
    and "fetch_advanced_stats a tb y = (evs_b, Some sb)"
    and "sa \<noteq> []" "sb \<noteq> []"
    and lacks: "map_of sa c = None \<or> map_of sb c = None"
  shows "compare_teams a ta tb y =
           Print (''--- Comparing Advanced Season Stats for '' @ ta @ '' vs '' @ tb @
                  '' ('' @ str_int y @ '') ---'') # evs_a @ evs_b @
           concat (map (compare_category ta tb sa sb) display_categories)
         \<and> compare_category ta tb sa sb c = [Print (''\<newline>--- '' @ capitalize c @ '' ---'')]"
proof -
  have "\<not> truthy (dict_get sa c PNone) \<or> \<not> truthy (dict_get sb c PNone)"
    using lacks by (auto simp: dict_get_missing)
  then have "category_table ta tb (dict_get sa c PNone) (dict_get sb c PNone) = []"
    by (auto simp: category_table_def)
  then show ?thesis
    using assms(1-4) by (simp add: compare_teams_fetched compare_category_def)
qed

text \<open>The first example team has no defense section, the second has one.\<close>

theorem category_without_section_witness:
  "compare_teams example_api ''LSU'' ''Clemson'' 2019 =
     Print ''--- Comparing Advanced Season Stats for LSU vs Clemson (2019) ---'' #
     [Print ''Fetching advanced stats for LSU in 2019...'', AdvancedSeasonStatsRequest 2019 ''LSU''] @
     [Print ''Fetching advanced stats for Clemson in 2019...'',
      AdvancedSeasonStatsRequest 2019 ''Clemson''] @
     concat (map (compare_category ''LSU'' ''Clemson'' lsu_stats clemson_stats) display_categories)
   \<and> compare_category ''LSU'' ''Clemson'' lsu_stats clemson_stats ''defense'' =
       [Print ''\<newline>--- Defense ---'']"
proof -
  have ne: "lsu_stats \<noteq> []" "clemson_stats \<noteq> []"
    by (simp_all add: lsu_stats_def clemson_stats_def)
  have lacks: "map_of lsu_stats ''defense'' = None \<or> map_of clemson_stats ''defense'' = None"
    by (simp add: lsu_stats_def)
  have "str_int 2019 = ''2019''"
    by (simp add: str_int_def str_nat.simps digit_char_def)
  moreover have "capitalize ''defense'' = ''Defense''"
    by (simp add: capitalize_def lower_def char_defs)
  ultimately show ?thesis
    using category_without_section [OF fetch_lsu fetch_clemson ne lacks] by simp
qed

text \<open>
  The claim says that nothing is printed for such a category. For the two example
  teams the heading of the defense section is part of the output.
\<close>

theorem defense_heading_counterexample:
  "map_of lsu_stats ''defense'' = None \<and>
   map_of clemson_stats ''defense'' = Some (PDict [(''plays'', PInt 60)]) \<and>
   Print ''\<newline>--- Defense ---'' \<in> set (compare_teams example_api ''LSU'' ''Clemson'' 2019)"
  by (simp add: compare_teams_def fetch_lsu fetch_clemson lsu_stats_def clemson_stats_def
      display_categories_def compare_category_def capitalize_def lower_def char_defs)

subsection \<open>When the table is printed (claim C10)\<close>

text \<open>
  Claim C10. The table of a category is printed exactly when both values are non-empty
  dictionaries. Otherwise (an empty dictionary, a value that is no dictionary, a missing
  key) the section consists of its heading only, which is also what it is after the key
  is removed from both teams' statistics.
\<close>

theorem table_only_for_dicts:
  "(category_table ta tb va vb \<noteq> [] \<longleftrightarrow>
      (\<exists>a b. va = PDict a \<and> vb = PDict b \<and> a \<noteq> [] \<and> b \<noteq> []))
   \<and> (\<not> (\<exists>a b. dict_get sa c PNone = PDict a \<and> dict_get sb c PNone = PDict b \<and>
               a \<noteq> [] \<and> b \<noteq> []) \<longrightarrow>
        compare_category ta tb sa sb c = [Print (''\<newline>--- '' @ capitalize c @ '' ---'')] \<and>
        compare_category ta tb sa sb c =
          compare_category ta tb (AList.delete c sa) (AList.delete c sb) c)"
proof -
  have iff: "category_table ta tb va vb \<noteq> [] \<longleftrightarrow>
      (\<exists>a b. va = PDict a \<and> vb = PDict b \<and> a \<noteq> [] \<and> b \<noteq> [])" for va vb
    by (cases va; cases vb) (auto simp: category_table_def)
  have absent: "category_table ta tb PNone PNone = []"
    by (simp add: category_table_def)
  show ?thesis
    using iff [of va vb] iff [of "dict_get sa c PNone" "dict_get sb c PNone"] absent
    by (auto simp: compare_category_def dict_get_delete)
qed

text \<open>
  The third example team has an empty total and an offense that is a string; both keys
  are present in the second team's statistics as well.
\<close>

theorem table_only_for_dicts_witness:
  "compare_category ''Rice'' ''Clemson'' rice_stats clemson_stats ''total'' =
     [Print ''\<newline>--- Total ---''] \<and>
   compare_category ''Rice'' ''Clemson'' rice_stats clemson_stats ''offense'' =
     [Print ''\<newline>--- Offense ---''] \<and>
   compare_category ''Rice'' ''Clemson'' rice_stats clemson_stats ''offense'' =
     compare_category ''Rice'' ''Clemson''
       (AList.delete ''offense'' rice_stats) (AList.delete ''offense'' clemson_stats) ''offense''"
proof -
  have total: "\<not> (\<exists>a b. dict_get rice_stats ''total'' PNone = PDict a \<and>
                  dict_get clemson_stats ''total'' PNone = PDict b \<and> a \<noteq> [] \<and> b \<noteq> [])"
    by (simp add: dict_get_def rice_stats_def)
  have offense: "\<not> (\<exists>a b. dict_get rice_stats ''offense'' PNone = PDict a \<and>
                  dict_get clemson_stats ''offense'' PNone = PDict b \<and> a \<noteq> [] \<and> b \<noteq> [])"
    by (simp add: dict_get_def rice_stats_def)
  have caps: "capitalize ''total'' = ''Total''" "capitalize ''offense'' = ''Offense''"
    by (simp_all add: capitalize_def lower_def char_defs)
  note skip = table_only_for_dicts [THEN conjunct2, rule_format]
  have t1: "compare_category ''Rice'' ''Clemson'' rice_stats clemson_stats ''total'' =
              [Print ''\<newline>--- Total ---'']"
    using skip [OF total, THEN conjunct1, of "''Rice''" "''Clemson''"] by (simp add: caps)
  have o1: "compare_category ''Rice'' ''Clemson'' rice_stats clemson_stats ''offense'' =
              [Print ''\<newline>--- Offense ---'']"
    using skip [OF offense, THEN conjunct1, of "''Rice''" "''Clemson''"] by (simp add: caps)
  show ?thesis
    using t1 o1 skip [OF offense, THEN conjunct2, of "''Rice''" "''Clemson''"] by (intro conjI)
qed

section \<open>The position resolver (claim C8)\<close>

lemma scan_roster_first:
  "(\<forall>q \<in> set pre. lower (name q) \<noteq> lower pn) \<Longrightarrow> lower (name p) = lower pn \<Longrightarrow>
   scan_roster pn (pre @ p # post) = position p"
  by (induction pre) auto

lemma scan_roster_none:
  "(\<forall>q \<in> set roster. lower (name q) \<noteq> lower pn) \<Longrightarrow> scan_roster pn roster = None"
  by (induction roster) auto

lemma scan_roster_find:
  "scan_roster pn roster =
     (case find (\<lambda>p. lower (name p) = lower pn) roster of None \<Rightarrow> None | Some p \<Rightarrow> position p)"
  by (induction roster) auto

text \<open>
  Claim C8. With a credential and a roster returned, the resolver gives the position of
  the first roster entry, in the order of the response, whose name equals the player
  name when both are lowered, and nothing when no entry matches. When the request raises,
  or the credential is missing, it prints a message and gives nothing.
\<close>

theorem get_player_position_first_match:
  "(\<not> no_token a \<and> get_roster a tn y = Inr (pre @ p # post) \<and>
      (\<forall>q \<in> set pre. lower (name q) \<noteq> lower pn) \<and> lower (name p) = lower pn \<longrightarrow>
        get_player_position a pn tn y = ([RosterRequest tn y], position p))
   \<and> (\<not> no_token a \<and> get_roster a tn y = Inr roster \<and>
      (\<forall>q \<in> set roster. lower (name q) \<noteq> lower pn) \<longrightarrow>
        get_player_position a pn tn y = ([RosterRequest tn y], None))
   \<and> (\<not> no_token a \<and> get_roster a tn y = Inl e \<longrightarrow>
        get_player_position a pn tn y =
          ([RosterRequest tn y,
            Print (case e of
                     ApiException m \<Rightarrow> ''CFBD API Error while fetching roster for '' @ tn @ '': '' @ m
                   | PyException m \<Rightarrow> ''An unexpected error occurred while fetching roster: '' @ m)],
           None))
   \<and> (no_token a \<longrightarrow>
        get_player_position a pn tn y =
          ([Print (''An unexpected error occurred while fetching roster: '' @ key_not_found)], None))"
  by (cases e)
     (simp_all add: get_player_position_def get_player_position_try_def scan_roster_first scan_roster_none)

text \<open>
  In the example roster two entries match \<open>joe burrow\<close>; the position of the first one
  is returned.
\<close>

theorem get_player_position_first_match_witness:
  "get_player_position example_api ''joe burrow'' ''LSU'' 2019 = ([RosterRequest ''LSU'' 2019], Some ''qb'')
   \<and> get_player_position example_api ''Nobody'' ''LSU'' 2019 = ([RosterRequest ''LSU'' 2019], None)
   \<and> get_player_position example_api ''joe burrow'' ''Down'' 2019 =
       ([RosterRequest ''Down'' 2019,
         Print ''An unexpected error occurred while fetching roster: timed out''], None)
   \<and> snd (get_player_position keyless_api ''joe burrow'' ''LSU'' 2019) = None"
proof -
  have tok: "\<not> no_token example_api" "no_token keyless_api"
    by (simp_all add: no_token_def example_api_def keyless_api_def)
  have roster: "get_roster example_api ''LSU'' 2019 =
      Inr ([\<lparr>name = ''Clyde Edwards-Helaire'', position = Some ''RB''\<rparr>] @
           \<lparr>name = ''Joe Burrow'', position = Some ''qb''\<rparr> #
           [\<lparr>name = ''JOE BURROW'', position = Some ''WR''\<rparr>,
            \<lparr>name = ''Blake Ferguson'', position = Some ''LS''\<rparr>,
            \<lparr>name = ''Sam Coach'', position = Some ''HC''\<rparr>])"
    by (simp add: example_api_def lsu_roster_def)
  have pre: "\<forall>q \<in> set [\<lparr>name = ''Clyde Edwards-Helaire'', position = Some ''RB''\<rparr>].
               lower (name q) \<noteq> lower ''joe burrow''"
    by (simp add: lower_def char_defs)
  have hit: "lower (name \<lparr>name = ''Joe Burrow'', position = Some ''qb''\<rparr>) = lower ''joe burrow''"
    by (simp add: lower_def char_defs)
  have roster2: "get_roster example_api ''LSU'' 2019 = Inr lsu_roster"
    by (simp add: example_api_def)
  have nobody: "\<forall>q \<in> set lsu_roster. lower (name q) \<noteq> lower ''Nobody''"
    by (simp add: lsu_roster_def lower_def char_defs)
  have down: "get_roster example_api ''Down'' 2019 = Inl (PyException ''timed out'')"
    by (simp add: example_api_def)
  note thm1 = get_player_position_first_match [THEN conjunct1, rule_format]
  note thm2 = get_player_position_first_match [THEN conjunct2, THEN conjunct1, rule_format]
  note thm3 = get_player_position_first_match [THEN conjunct2, THEN conjunct2, THEN conjunct1, rule_format]
  note thm4 = get_player_position_first_match [THEN conjunct2, THEN conjunct2, THEN conjunct2, rule_format]
  have 1: "get_player_position example_api ''joe burrow'' ''LSU'' 2019 = ([RosterRequest ''LSU'' 2019], Some ''qb'')"
    using thm1 [OF conjI [OF tok(1) conjI [OF roster conjI [OF pre hit]]]] by simp
  have 2: "get_player_position example_api ''Nobody'' ''LSU'' 2019 = ([RosterRequest ''LSU'' 2019], None)"
    using thm2 [OF conjI [OF tok(1) conjI [OF roster2 nobody]]] .
  have 3: "get_player_position example_api ''joe burrow'' ''Down'' 2019 =
       ([RosterRequest ''Down'' 2019,
         Print ''An unexpected error occurred while fetching roster: timed out''], None)"
    using thm3 [OF conjI [OF tok(1) down], of "''joe burrow''"] by simp
  have 4: "snd (get_player_position keyless_api ''joe burrow'' ''LSU'' 2019) = None"
    using thm4 [OF tok(2), of "''joe burrow''" "''LSU''" 2019] by simp
  show ?thesis using 1 2 3 4 by (intro conjI)
qed

section \<open>The aggregator\<close>

lemma position_events_no_stats:
  "filter is_player_stats_request (fst (get_player_position a pn tn y)) = []"
  by (auto simp: get_player_position_def get_player_position_try_def split: sum.splits exn.splits)

lemma first_match_first:
  "(\<forall>q \<in> set pre. lower (player q) \<noteq> lower pn) \<Longrightarrow> lower (player p) = lower pn \<Longrightarrow>
   first_match pn (pre @ p # post) = Some (to_dict p)"
  by (induction pre) auto

lemma first_match_none:
  "(\<forall>q \<in> set r. lower (player q) \<noteq> lower pn) \<Longrightarrow> first_match pn r = None"
  by (induction r) auto

lemma merge_response_first:
  "(\<forall>q \<in> set pre. lower (player q) \<noteq> lower pn) \<Longrightarrow> lower (player p) = lower pn \<Longrightarrow>
   merge_response pn c comb (pre @ p # post) = merge_stats c comb (to_dict p)"
  by (simp add: merge_response_def first_match_first)

lemma merge_response_none:
  "(\<forall>q \<in> set r. lower (player q) \<noteq> lower pn) \<Longrightarrow> merge_response pn c comb r = comb"
  by (simp add: merge_response_def first_match_none)

lemma fetch_categories_requests:
  "filter is_player_stats_request (fst (fetch_categories a pn tn y cats comb)) =
     map (PlayerSeasonStatsRequest y tn)
       (takeWhile (\<lambda>c. \<not> isl (get_player_season_stats a y tn c)) cats @
        take 1 (dropWhile (\<lambda>c. \<not> isl (get_player_season_stats a y tn c)) cats))"
  by (induction cats arbitrary: comb) (auto simp: Let_def case_prod_beta split: sum.splits)

lemma fetch_categories_ok:
  "(\<forall>c \<in> set cats. get_player_season_stats a y tn c = Inr (resp c)) \<Longrightarrow>
   fetch_categories a pn tn y cats comb =
     (concat (map (\<lambda>c. [Print (''Fetching '' @ c @ '' stats...''), PlayerSeasonStatsRequest y tn c]) cats),
      Inr (foldl (\<lambda>comb c. merge_response pn c comb (resp c)) comb cats))"
  by (induction cats arbitrary: comb) (auto simp: Let_def)

lemma fetch_categories_fault:
  "(\<forall>c' \<in> set pre. get_player_season_stats a y tn c' = Inr (resp c')) \<Longrightarrow>
   get_player_season_stats a y tn c = Inl e \<Longrightarrow>
   fetch_categories a pn tn y (pre @ c # post) comb =
     (concat (map (\<lambda>c. [Print (''Fetching '' @ c @ '' stats...''), PlayerSeasonStatsRequest y tn c]) pre) @
      [Print (''Fetching '' @ c @ '' stats...''), PlayerSeasonStatsRequest y tn c],
      Inl e)"
  by (induction pre arbitrary: comb) (auto simp: Let_def)

lemma print_combined_no_requests:
  "filter is_request (print_combined pn pos tn y comb) = []"
  by (simp add: print_combined_def comp_def)

lemma print_combined_no_stats_requests:
  "filter is_player_stats_request (print_combined pn pos tn y comb) = []"
  by (simp add: print_combined_def comp_def)

lemma fetch_and_print_requests:
  "filter is_player_stats_request (fetch_and_print a pn pos tn y cats) =
   filter is_player_stats_request (fst (fetch_categories a pn tn y cats []))"
  by (auto simp: fetch_and_print_def print_combined_no_stats_requests split: prod.splits sum.splits exn.splits)

lemma stats_by_name_resolved:
  assumes "get_player_position a pn tn y = (evs_pos, Some pos)" "pos \<noteq> []"
    "map_of POSITION_STAT_MAP (upper pos) = Some cats" "cats \<noteq> []"
  shows "get_player_stats_by_name a pn tn y =
           Print (''--- Searching for stats for '' @ pn @ '' on '' @ tn @ '' ('' @ str_int y @ '') ---'') #
           evs_pos @ fetch_and_print a pn pos tn y cats"
  using assms by (simp add: get_player_stats_by_name_def)

lemma position_ferguson:
  "get_player_position example_api ''blake ferguson'' ''LSU'' 2019 = ([RosterRequest ''LSU'' 2019], Some ''LS'')"
  by (simp add: get_player_position_def get_player_position_try_def example_api_def no_token_def
      lsu_roster_def lower_def char_defs)

lemma position_coach:
  "get_player_position example_api ''Sam Coach'' ''LSU'' 2019 = ([RosterRequest ''LSU'' 2019], Some ''HC'')"
  by (simp add: get_player_position_def get_player_position_try_def example_api_def no_token_def
      lsu_roster_def lower_def char_defs)

lemma position_walk_on:
  "get_player_position blank_position_api ''Walk On'' ''LSU'' 2019 = ([RosterRequest ''LSU'' 2019], Some [])"
  by (simp add: get_player_position_def get_player_position_try_def blank_position_api_def
      example_api_def no_token_def)

lemma position_burrow:
  "get_player_position example_api ''joe burrow'' ''LSU'' y = ([RosterRequest ''LSU'' y], Some ''qb'')"
  by (simp add: get_player_position_def get_player_position_try_def example_api_def no_token_def
      lsu_roster_def lower_def char_defs)

lemma categories_qb:
  "map_of POSITION_STAT_MAP (upper ''qb'') = Some [''passing'', ''rushing'', ''receiving'', ''fumbles'']"
  by (simp add: POSITION_STAT_MAP_def upper_def char_defs)

subsection \<open>Unsupported positions (claim C3)\<close>

text \<open>
  Claim C3, as the code has it. Let the resolver return a position that is not a key of
  \<open>POSITION_STAT_MAP\<close> after upper-casing, or is mapped to the empty list. If the
  position is not the empty string, the run consists of the search line, the events of
  the roster call and one message that names the position and lists the keys of the map.
  The empty string is taken as no position by the test of line 120: the message is the
  one for a player that is not in the roster. In both cases no player statistics are
  requested.
\<close>

theorem unsupported_position_no_requests:
  assumes pos: "get_player_position a pn tn y = (evs_pos, Some pos)"
    and unsupported: "map_of POSITION_STAT_MAP (upper pos) = None \<or>
                      map_of POSITION_STAT_MAP (upper pos) = Some []"
  shows "(pos \<noteq> [] \<longrightarrow>
           get_player_stats_by_name a pn tn y =
             Print (''--- Searching for stats for '' @ pn @ '' on '' @ tn @ '' ('' @ str_int y @ '') ---'') #
             evs_pos @
             [Print (''Player position '' @ quote pos @
                     '' is not supported for detailed stats fetching. Supported positions are '' @
                     ''['QB', 'RB', 'WR', 'TE', 'FB', 'DB', 'CB', 'S', 'LB', 'DE', 'DT', 'DL', 'K', 'P', 'LS', 'OL']'' @
                     ''.'')])
       \<and> (pos = [] \<longrightarrow>
           get_player_stats_by_name a pn tn y =
             Print (''--- Searching for stats for '' @ pn @ '' on '' @ tn @ '' ('' @ str_int y @ '') ---'') #
             evs_pos @
             [Print (''Could not find player '' @ quote pn @ '' or team '' @ quote tn @
                     '' in the roster for '' @ str_int y @ ''. Please check the names and try again.'')])
       \<and> filter is_player_stats_request (get_player_stats_by_name a pn tn y) = []"
proof -
  have msg: "unsupported_position pos = ''Player position '' @ quote pos @
                   '' is not supported for detailed stats fetching. Supported positions are '' @
                   ''['QB', 'RB', 'WR', 'TE', 'FB', 'DB', 'CB', 'S', 'LB', 'DE', 'DT', 'DL', 'K', 'P', 'LS', 'OL']'' @
                   ''.''"
    by (simp add: unsupported_position_def repr_str_list_def keys_def POSITION_STAT_MAP_def quote_def)
  have run: "get_player_stats_by_name a pn tn y =
           Print (''--- Searching for stats for '' @ pn @ '' on '' @ tn @ '' ('' @ str_int y @ '') ---'') #
           evs_pos @ [Print (unsupported_position pos)]" if "pos \<noteq> []"
    using unsupported that by (auto simp: get_player_stats_by_name_def pos)
  have blank: "get_player_stats_by_name a pn tn y =
           Print (''--- Searching for stats for '' @ pn @ '' on '' @ tn @ '' ('' @ str_int y @ '') ---'') #
           evs_pos @ [Print (not_in_roster pn tn y)]" if "pos = []"
    using that by (simp add: get_player_stats_by_name_def pos)
  have none: "filter is_player_stats_request evs_pos = []"
    using position_events_no_stats [of a pn tn y] by (simp add: pos)
  have "filter is_player_stats_request (get_player_stats_by_name a pn tn y) = []"
    using run blank none by (cases "pos = []") simp_all
  then show ?thesis
    using run blank unfolding msg not_in_roster_def by simp
qed

text \<open>
  Two players of the example roster, a long snapper (empty list) and a coach (no key),
  and the player with the empty position.
\<close>

theorem unsupported_position_no_requests_witness:
  "filter is_player_stats_request (get_player_stats_by_name example_api ''blake ferguson'' ''LSU'' 2019) = []
   \<and> filter is_player_stats_request (get_player_stats_by_name blank_position_api ''Walk On'' ''LSU'' 2019) = []
   \<and> get_player_stats_by_name example_api ''Sam Coach'' ''LSU'' 2019 =
       [Print ''--- Searching for stats for Sam Coach on LSU (2019) ---'',
        RosterRequest ''LSU'' 2019,
        Print ''Player position 'HC' is not supported for detailed stats fetching. Supported positions are ['QB', 'RB', 'WR', 'TE', 'FB', 'DB', 'CB', 'S', 'LB', 'DE', 'DT', 'DL', 'K', 'P', 'LS', 'OL'].'']"
proof -
  have ls: "map_of POSITION_STAT_MAP (upper ''LS'') = None \<or> map_of POSITION_STAT_MAP (upper ''LS'') = Some []"
    by (simp add: POSITION_STAT_MAP_def upper_def char_defs)
  have hc: "map_of POSITION_STAT_MAP (upper ''HC'') = None \<or> map_of POSITION_STAT_MAP (upper ''HC'') = Some []"
    by (simp add: POSITION_STAT_MAP_def upper_def char_defs)
  have blank: "map_of POSITION_STAT_MAP (upper []) = None \<or> map_of POSITION_STAT_MAP (upper []) = Some []"
    by (simp add: POSITION_STAT_MAP_def upper_def)
  have y: "str_int 2019 = ''2019''"
    by (simp add: str_int_def str_nat.simps digit_char_def)
  show ?thesis
    using unsupported_position_no_requests [OF position_ferguson ls]
      unsupported_position_no_requests [OF position_coach hc]
      unsupported_position_no_requests [OF position_walk_on blank]
    by (simp add: y quote_def)
qed

text \<open>
  The claim promises the unsupported-position message for every position code that is
  not in the map. The empty string is not in the map, and the message is another one.
\<close>

theorem blank_position_counterexample:
  "snd (get_player_position blank_position_api ''Walk On'' ''LSU'' 2019) = Some [] \<and>
   map_of POSITION_STAT_MAP (upper []) = None \<and>
   get_player_stats_by_name blank_position_api ''Walk On'' ''LSU'' 2019 =
     [Print ''--- Searching for stats for Walk On on LSU (2019) ---'',
      RosterRequest ''LSU'' 2019,
      Print ''Could not find player 'Walk On' or team 'LSU' in the roster for 2019. Please check the names and try again.'']"
  by (simp add: get_player_stats_by_name_def position_walk_on POSITION_STAT_MAP_def upper_def
      not_in_roster_def quote_def str_int_def str_nat.simps digit_char_def)

subsection \<open>One request per category (claim C1)\<close>

text \<open>
  Claim C1, as the code has it. Let the resolved position map to a non-empty list of
  categories. The requests for player statistics are those of the categories up to and
  including the first one whose request raises, in the order of the list, one each. So
  when no request raises there is exactly one request per category, in the order of the
  list, and the combined statistics are obtained by merging, category after category,
  the first record of the response whose player name equals the target name when both
  are lowered (nothing is merged when there is none).
\<close>

theorem player_stats_requests:
  assumes pos: "get_player_position a pn tn y = (evs_pos, Some pos)" "pos \<noteq> []"
    and cats: "map_of POSITION_STAT_MAP (upper pos) = Some cats" "cats \<noteq> []"
  shows "filter is_player_stats_request (get_player_stats_by_name a pn tn y) =
           map (PlayerSeasonStatsRequest y tn)
             (takeWhile (\<lambda>c. \<not> isl (get_player_season_stats a y tn c)) cats @
              take 1 (dropWhile (\<lambda>c. \<not> isl (get_player_season_stats a y tn c)) cats))
       \<and> ((\<forall>c \<in> set cats. get_player_season_stats a y tn c = Inr (resp c)) \<longrightarrow>
            filter is_player_stats_request (get_player_stats_by_name a pn tn y) =
              map (PlayerSeasonStatsRequest y tn) cats \<and>
            snd (fetch_categories a pn tn y cats []) =
              Inr (foldl (\<lambda>comb c. merge_response pn c comb (resp c)) [] cats))
       \<and> (\<forall>c comb pre p post.
             (\<forall>q \<in> set pre. lower (player q) \<noteq> lower pn) \<and> lower (player p) = lower pn \<longrightarrow>
             merge_response pn c comb (pre @ p # post) = merge_stats c comb (to_dict p))
       \<and> (\<forall>c comb r. (\<forall>q \<in> set r. lower (player q) \<noteq> lower pn) \<longrightarrow>
             merge_response pn c comb r = comb)"
proof -
  have "filter is_player_stats_request evs_pos = []"
    using position_events_no_stats [of a pn tn y] by (simp add: pos)
  then have req: "filter is_player_stats_request (get_player_stats_by_name a pn tn y) =
      filter is_player_stats_request (fst (fetch_categories a pn tn y cats []))"
    by (simp add: stats_by_name_resolved [OF pos cats] fetch_and_print_requests)
  have general: "filter is_player_stats_request (get_player_stats_by_name a pn tn y) =
           map (PlayerSeasonStatsRequest y tn)
             (takeWhile (\<lambda>c. \<not> isl (get_player_season_stats a y tn c)) cats @
              take 1 (dropWhile (\<lambda>c. \<not> isl (get_player_season_stats a y tn c)) cats))"
    unfolding req by (rule fetch_categories_requests)
  have ok: "filter is_player_stats_request (get_player_stats_by_name a pn tn y) =
              map (PlayerSeasonStatsRequest y tn) cats \<and>
            snd (fetch_categories a pn tn y cats []) =
              Inr (foldl (\<lambda>comb c. merge_response pn c comb (resp c)) [] cats)"
    if "\<forall>c \<in> set cats. get_player_season_stats a y tn c = Inr (resp c)"
  proof -
    have all: "\<forall>c \<in> set cats. \<not> isl (get_player_season_stats a y tn c)"
      using that by simp
    have tw: "takeWhile (\<lambda>c. \<not> isl (get_player_season_stats a y tn c)) cats = cats"
      using all by (simp add: takeWhile_eq_all_conv)
    have dw: "dropWhile (\<lambda>c. \<not> isl (get_player_season_stats a y tn c)) cats = []"
      using all by (simp add: dropWhile_eq_Nil_conv)
    have "filter is_player_stats_request (get_player_stats_by_name a pn tn y) =
              map (PlayerSeasonStatsRequest y tn) cats"
      unfolding general tw dw by simp
    then show ?thesis
      by (simp add: fetch_categories_ok [OF that, of pn "[]"])
  qed
  show ?thesis
    using general ok by (simp add: merge_response_first merge_response_none)
qed

text \<open>
  The quarterback of the example roster: four requests in 2019, and two in 2021, when
  the second request raises.
\<close>

theorem player_stats_requests_witness:
  "filter is_player_stats_request (get_player_stats_by_name example_api ''joe burrow'' ''LSU'' 2019) =
     [PlayerSeasonStatsRequest 2019 ''LSU'' ''passing'', PlayerSeasonStatsRequest 2019 ''LSU'' ''rushing'',
      PlayerSeasonStatsRequest 2019 ''LSU'' ''receiving'', PlayerSeasonStatsRequest 2019 ''LSU'' ''fumbles'']
   \<and> filter is_player_stats_request (get_player_stats_by_name example_api ''joe burrow'' ''LSU'' 2021) =
     [PlayerSeasonStatsRequest 2021 ''LSU'' ''passing'', PlayerSeasonStatsRequest 2021 ''LSU'' ''rushing'']"
proof -
  have ne: "''qb'' \<noteq> []" "[''passing'', ''rushing'', ''receiving'', ''fumbles''] \<noteq> []"
    by simp_all
  note requests = player_stats_requests [OF position_burrow ne(1) categories_qb ne(2), THEN conjunct1]
  show ?thesis
    unfolding requests by (simp add: example_api_def)
qed

text \<open>
  The claim promises one request per category for every player with a supported
  position. In 2020 the first request of the example API raises: the program has made
  one request for a position with four categories.
\<close>

theorem player_stats_requests_counterexample:
  "snd (get_player_position example_api ''joe burrow'' ''LSU'' 2020) = Some ''qb'' \<and>
   map_of POSITION_STAT_MAP (upper ''qb'') = Some [''passing'', ''rushing'', ''receiving'', ''fumbles''] \<and>
   filter is_player_stats_request (get_player_stats_by_name example_api ''joe burrow'' ''LSU'' 2020) =
     [PlayerSeasonStatsRequest 2020 ''LSU'' ''passing'']"
proof -
  have ne: "''qb'' \<noteq> []" "[''passing'', ''rushing'', ''receiving'', ''fumbles''] \<noteq> []"
    by simp_all
  have "filter is_player_stats_request (get_player_stats_by_name example_api ''joe burrow'' ''LSU'' 2020) =
     [PlayerSeasonStatsRequest 2020 ''LSU'' ''passing'']"
    unfolding stats_by_name_resolved [OF position_burrow ne(1) categories_qb ne(2)]
    by (simp add: fetch_and_print_requests fetch_categories_requests example_api_def)
  then show ?thesis
    by (simp add: position_burrow categories_qb)
qed

subsection \<open>The merge (claim C2)\<close>

lemma keys_update: "set (keys (AList.update k v al)) = insert k (set (keys al))"
  by (auto simp: keys_def update_keys)

lemma merge_stats_keys:
  "set (keys (merge_stats c comb items)) =
     set (keys comb) \<union> (\<lambda>f. c @ ''_'' @ f) ` (set (keys items) - set excluded_fields)"
proof (induction items arbitrary: comb)
  case Nil
  then show ?case by (simp add: keys_def)
next
  case (Cons item items)
  obtain f v where item: "item = (f, v)" by (cases item)
  show ?case
  proof (cases "f \<in> set excluded_fields")
    case True
    then have "set (keys (item # items)) - set excluded_fields = set (keys items) - set excluded_fields"
      using item by (auto simp: keys_def)
    then show ?thesis
      using True item Cons.IH [of comb] by simp
  next
    case False
    then have "set (keys (item # items)) - set excluded_fields =
        insert f (set (keys items) - set excluded_fields)"
      using item by (auto simp: keys_def)
    then show ?thesis
      using False item Cons.IH [of "AList.update (c @ ''_'' @ f) v comb"]
      by (simp add: keys_update)
  qed
qed

lemma merge_stats_other:
  "k \<notin> (\<lambda>f. c @ ''_'' @ f) ` (set (keys items) - set excluded_fields) \<Longrightarrow>
   map_of (merge_stats c comb items) k = map_of comb k"
proof (induction items arbitrary: comb)
  case Nil
  then show ?case by simp
next
  case (Cons item items)
  obtain f v where item: "item = (f, v)" by (cases item)
  have rest: "k \<notin> (\<lambda>f. c @ ''_'' @ f) ` (set (keys items) - set excluded_fields)"
    using Cons.prems by (auto simp: keys_def)
  show ?case
  proof (cases "f \<in> set excluded_fields")
    case True
    then show ?thesis using item Cons.IH [OF rest, of comb] by simp
  next
    case False
    then have "k \<noteq> c @ ''_'' @ f"
      using Cons.prems item by (auto simp: keys_def)
    then show ?thesis
      using False item Cons.IH [OF rest, of "AList.update (c @ ''_'' @ f) v comb"]
      by (simp add: update_conv')
  qed
qed

lemma merge_stats_copied:
  "distinct (keys items) \<Longrightarrow> (f, v) \<in> set items \<Longrightarrow> f \<notin> set excluded_fields \<Longrightarrow>
   map_of (merge_stats c comb items) (c @ ''_'' @ f) = Some v"
proof (induction items arbitrary: comb)
  case Nil
  then show ?case by simp
next
  case (Cons item items)
  obtain f' v' where item: "item = (f', v')" by (cases item)
  show ?case
  proof (cases "(f, v) = item")
    case True
    then have "f \<notin> set (keys items)" using Cons.prems(1) item by (simp add: keys_def)
    then have "c @ ''_'' @ f \<notin> (\<lambda>f. c @ ''_'' @ f) ` (set (keys items) - set excluded_fields)"
      by auto
    then show ?thesis
      using True item Cons.prems(3) by (simp add: merge_stats_other update_conv')
  next
    case False
    then have "(f, v) \<in> set items" using Cons.prems(2) by simp
    moreover have "distinct (keys items)" using Cons.prems(1) by (simp add: keys_def)
    ultimately show ?thesis
      using Cons.IH Cons.prems(3) item by simp
  qed
qed

lemma category_prefix_unique:
  "CHR ''_'' \<notin> set c \<Longrightarrow> CHR ''_'' \<notin> set c' \<Longrightarrow> c @ ''_'' @ f = c' @ ''_'' @ f' \<Longrightarrow> c = c'"
proof (induction c arbitrary: c')
  case Nil
  then show ?case by (cases c') auto
next
  case (Cons x c)
  then show ?case by (cases c') auto
qed

lemma merge_response_alt:
  "merge_response pn c comb r =
     (case first_match pn r of None \<Rightarrow> comb | Some d \<Rightarrow> merge_stats c comb d)"
  by (cases r) (auto simp: merge_response_def split: option.splits)

lemma merge_response_other:
  "\<forall>f. k \<noteq> c @ ''_'' @ f \<Longrightarrow> map_of (merge_response pn c comb r) k = map_of comb k"
proof -
  assume k: "\<forall>f. k \<noteq> c @ ''_'' @ f"
  have "k \<notin> (\<lambda>f. c @ ''_'' @ f) ` (set (keys d) - set excluded_fields)" for d
    using k by blast
  then have "map_of (merge_stats c comb d) k = map_of comb k" for d
    by (rule merge_stats_other)
  then show ?thesis
    by (simp add: merge_response_alt split: option.splits)
qed

lemma merge_all_other:
  "\<forall>c \<in> set cats. \<forall>f. k \<noteq> c @ ''_'' @ f \<Longrightarrow>
   map_of (foldl (\<lambda>comb c. merge_response pn c comb (resp c)) comb cats) k = map_of comb k"
proof (induction cats arbitrary: comb)
  case Nil
  then show ?case by simp
next
  case (Cons c cats)
  have here: "\<forall>f. k \<noteq> c @ ''_'' @ f" and later: "\<forall>c \<in> set cats. \<forall>f. k \<noteq> c @ ''_'' @ f"
    using Cons.prems by simp_all
  show ?case
    using Cons.IH [OF later, of "merge_response pn c comb (resp c)"]
      merge_response_other [OF here, of pn comb "resp c"]
    by simp
qed

lemma merge_all_copied:
  assumes "distinct cats" and "\<forall>c \<in> set cats. CHR ''_'' \<notin> set c" and "c \<in> set cats"
    and "first_match pn (resp c) = Some d" and "distinct (keys d)"
    and "(f, v) \<in> set d" and "f \<notin> set excluded_fields"
  shows "map_of (foldl (\<lambda>comb c. merge_response pn c comb (resp c)) comb cats) (c @ ''_'' @ f) = Some v"
  using assms(1-3)
proof (induction cats arbitrary: comb)
  case Nil
  then show ?case by simp
next
  case (Cons c0 cats)
  show ?case
  proof (cases "c = c0")
    case True
    have "\<forall>c' \<in> set cats. \<forall>f'. c @ ''_'' @ f \<noteq> c' @ ''_'' @ f'"
    proof (intro ballI allI notI)
      fix c' f'
      assume c': "c' \<in> set cats" and eq: "c @ ''_'' @ f = c' @ ''_'' @ f'"
      have "c = c'"
        using category_prefix_unique [OF _ _ eq] Cons.prems(2) c' True by simp
      then show False
        using Cons.prems(1) c' True by simp
    qed
    then have "map_of (foldl (\<lambda>comb c. merge_response pn c comb (resp c))
                 (merge_response pn c0 comb (resp c0)) cats) (c @ ''_'' @ f) =
               map_of (merge_response pn c0 comb (resp c0)) (c @ ''_'' @ f)"
      by (rule merge_all_other)
    also have "\<dots> = Some v"
      using True assms(4) merge_stats_copied [OF assms(5,6,7), of c comb]
      by (simp add: merge_response_alt)
    finally show ?thesis by simp
  next
    case False
    then have "c \<in> set cats" using Cons.prems(3) by simp
    moreover have "distinct cats" "\<forall>c \<in> set cats. CHR ''_'' \<notin> set c"
      using Cons.prems(1,2) by simp_all
    ultimately show ?thesis
      using Cons.IH [of "merge_response pn c0 comb (resp c0)"] by simp
  qed
qed

lemma merge_response_keys_eq:
  "set (keys (merge_response pn c comb r)) =
     set (keys comb) \<union>
     (case first_match pn r of None \<Rightarrow> {}
      | Some d \<Rightarrow> (\<lambda>f. c @ ''_'' @ f) ` (set (keys d) - set excluded_fields))"
  by (simp add: merge_response_alt merge_stats_keys split: option.splits)

lemma merge_all_keys:
  "set (keys (foldl (\<lambda>comb c. merge_response pn c comb (resp c)) comb cats)) =
     set (keys comb) \<union>
     (\<Union>c \<in> set cats. case first_match pn (resp c) of None \<Rightarrow> {}
        | Some d \<Rightarrow> (\<lambda>f. c @ ''_'' @ f) ` (set (keys d) - set excluded_fields))"
proof (induction cats arbitrary: comb)
  case Nil
  then show ?case by simp
next
  case (Cons c cats)
  show ?case
    using Cons.IH [of "merge_response pn c comb (resp c)"]
    by (simp add: merge_response_keys_eq Un_assoc)
qed

lemma position_map_categories:
  "map_of POSITION_STAT_MAP code = Some cats \<Longrightarrow>
   distinct cats \<and> (\<forall>c \<in> set cats. CHR ''_'' \<notin> set c)"
  by (auto simp: POSITION_STAT_MAP_def split: if_splits)

text \<open>
  Claim C2. The merge of a matched record (a dictionary, so with distinct keys) puts every
  field that is not one of \<open>player\<close>, \<open>team\<close>, \<open>conference\<close>, \<open>athlete_id\<close>,
  \<open>category\<close> under the key \<open>category_field\<close>; the keys afterwards are the old ones
  and these, and no other key changes its value. The record that is merged for a
  response is its first record whose player name matches. When no request raises, the
  combined statistics of the run, which are what is printed, are the result of merging
  the responses category after category: their keys are exactly the keys
  \<open>category_field\<close> of the matched records' fields that are not excluded, and, the
  categories being distinct and free of underscores (as all lists of the position map
  are), each such field of each matched record is there with its value.
\<close>

theorem merge_prefixes_fields:
  "excluded_fields = [''player'', ''team'', ''conference'', ''athlete_id'', ''category'']
   \<and> (distinct (keys items) \<longrightarrow>
        (\<forall>f v. (f, v) \<in> set items \<and> f \<notin> set excluded_fields \<longrightarrow>
           map_of (merge_stats c comb items) (c @ ''_'' @ f) = Some v))
   \<and> set (keys (merge_stats c comb items)) =
        set (keys comb) \<union> (\<lambda>f. c @ ''_'' @ f) ` (set (keys items) - set excluded_fields)
   \<and> (\<forall>k. k \<notin> (\<lambda>f. c @ ''_'' @ f) ` (set (keys items) - set excluded_fields) \<longrightarrow>
          map_of (merge_stats c comb items) k = map_of comb k)
   \<and> (\<forall>pre p post.
         (\<forall>q \<in> set pre. lower (player q) \<noteq> lower pn) \<and> lower (player p) = lower pn \<longrightarrow>
         merge_response pn c comb (pre @ p # post) = merge_stats c comb (to_dict p))
   \<and> ((\<forall>c \<in> set cats. get_player_season_stats a y tn c = Inr (resp c)) \<longrightarrow>
        fetch_categories a pn tn y cats [] =
          (concat (map (\<lambda>c. [Print (''Fetching '' @ c @ '' stats...''),
                               PlayerSeasonStatsRequest y tn c]) cats),
           Inr (foldl (\<lambda>comb c. merge_response pn c comb (resp c)) [] cats))
        \<and> fetch_and_print a pn pos tn y cats =
          concat (map (\<lambda>c. [Print (''Fetching '' @ c @ '' stats...''),
                              PlayerSeasonStatsRequest y tn c]) cats) @
          print_combined pn pos tn y (foldl (\<lambda>comb c. merge_response pn c comb (resp c)) [] cats))
   \<and> set (keys (foldl (\<lambda>comb c. merge_response pn c comb (resp c)) [] cats)) =
        (\<Union>c \<in> set cats. case first_match pn (resp c) of None \<Rightarrow> {}
           | Some d \<Rightarrow> (\<lambda>f. c @ ''_'' @ f) ` (set (keys d) - set excluded_fields))
   \<and> (distinct cats \<and> (\<forall>c \<in> set cats. CHR ''_'' \<notin> set c) \<longrightarrow>
        (\<forall>c \<in> set cats. \<forall>pre p post f v.
           resp c = pre @ p # post \<and>
           (\<forall>q \<in> set pre. lower (player q) \<noteq> lower pn) \<and> lower (player p) = lower pn \<and>
           distinct (keys (to_dict p)) \<and> (f, v) \<in> set (to_dict p) \<and> f \<notin> set excluded_fields \<longrightarrow>
           map_of (foldl (\<lambda>comb c. merge_response pn c comb (resp c)) [] cats) (c @ ''_'' @ f) =
             Some v))
   \<and> (\<forall>code cs. map_of POSITION_STAT_MAP code = Some cs \<longrightarrow>
         distinct cs \<and> (\<forall>c \<in> set cs. CHR ''_'' \<notin> set c))"
proof (intro conjI)
  show "excluded_fields = [''player'', ''team'', ''conference'', ''athlete_id'', ''category'']"
    by (simp add: excluded_fields_def)
  show "distinct (keys items) \<longrightarrow>
        (\<forall>f v. (f, v) \<in> set items \<and> f \<notin> set excluded_fields \<longrightarrow>
           map_of (merge_stats c comb items) (c @ ''_'' @ f) = Some v)"
    using merge_stats_copied by blast
  show "set (keys (merge_stats c comb items)) =
        set (keys comb) \<union> (\<lambda>f. c @ ''_'' @ f) ` (set (keys items) - set excluded_fields)"
    by (rule merge_stats_keys)
  show "\<forall>k. k \<notin> (\<lambda>f. c @ ''_'' @ f) ` (set (keys items) - set excluded_fields) \<longrightarrow>
          map_of (merge_stats c comb items) k = map_of comb k"
    using merge_stats_other by blast
  show "\<forall>pre p post.
         (\<forall>q \<in> set pre. lower (player q) \<noteq> lower pn) \<and> lower (player p) = lower pn \<longrightarrow>
         merge_response pn c comb (pre @ p # post) = merge_stats c comb (to_dict p)"
    using merge_response_first by blast
  show "(\<forall>c \<in> set cats. get_player_season_stats a y tn c = Inr (resp c)) \<longrightarrow>
        fetch_categories a pn tn y cats [] =
          (concat (map (\<lambda>c. [Print (''Fetching '' @ c @ '' stats...''),
                               PlayerSeasonStatsRequest y tn c]) cats),
           Inr (foldl (\<lambda>comb c. merge_response pn c comb (resp c)) [] cats))
        \<and> fetch_and_print a pn pos tn y cats =
          concat (map (\<lambda>c. [Print (''Fetching '' @ c @ '' stats...''),
                              PlayerSeasonStatsRequest y tn c]) cats) @
          print_combined pn pos tn y (foldl (\<lambda>comb c. merge_response pn c comb (resp c)) [] cats)"
  proof (intro impI)
    assume ok: "\<forall>c \<in> set cats. get_player_season_stats a y tn c = Inr (resp c)"
    show "fetch_categories a pn tn y cats [] =
          (concat (map (\<lambda>c. [Print (''Fetching '' @ c @ '' stats...''),
                               PlayerSeasonStatsRequest y tn c]) cats),
           Inr (foldl (\<lambda>comb c. merge_response pn c comb (resp c)) [] cats))
        \<and> fetch_and_print a pn pos tn y cats =
          concat (map (\<lambda>c. [Print (''Fetching '' @ c @ '' stats...''),
                              PlayerSeasonStatsRequest y tn c]) cats) @
          print_combined pn pos tn y (foldl (\<lambda>comb c. merge_response pn c comb (resp c)) [] cats)"
      unfolding fetch_and_print_def fetch_categories_ok [OF ok] by simp
  qed
  show "set (keys (foldl (\<lambda>comb c. merge_response pn c comb (resp c)) [] cats)) =
        (\<Union>c \<in> set cats. case first_match pn (resp c) of None \<Rightarrow> {}
           | Some d \<Rightarrow> (\<lambda>f. c @ ''_'' @ f) ` (set (keys d) - set excluded_fields))"
    unfolding merge_all_keys by (simp add: keys_def)
  show "distinct cats \<and> (\<forall>c \<in> set cats. CHR ''_'' \<notin> set c) \<longrightarrow>
        (\<forall>c \<in> set cats. \<forall>pre p post f v.
           resp c = pre @ p # post \<and>
           (\<forall>q \<in> set pre. lower (player q) \<noteq> lower pn) \<and> lower (player p) = lower pn \<and>
           distinct (keys (to_dict p)) \<and> (f, v) \<in> set (to_dict p) \<and> f \<notin> set excluded_fields \<longrightarrow>
           map_of (foldl (\<lambda>comb c. merge_response pn c comb (resp c)) [] cats) (c @ ''_'' @ f) =
             Some v)"
  proof (intro impI ballI allI, elim conjE)
    fix c pre p post f v
    assume "distinct cats" "\<forall>c \<in> set cats. CHR ''_'' \<notin> set c" "c \<in> set cats"
      and r: "resp c = pre @ p # post"
      and pre: "\<forall>q \<in> set pre. lower (player q) \<noteq> lower pn" and p: "lower (player p) = lower pn"
      and rest: "distinct (keys (to_dict p))" "(f, v) \<in> set (to_dict p)" "f \<notin> set excluded_fields"
    moreover have "first_match pn (resp c) = Some (to_dict p)"
      unfolding r using pre p by (rule first_match_first)
    ultimately show "map_of (foldl (\<lambda>comb c. merge_response pn c comb (resp c)) [] cats)
        (c @ ''_'' @ f) = Some v"
      by (intro merge_all_copied)
  qed
  show "\<forall>code cs. map_of POSITION_STAT_MAP code = Some cs \<longrightarrow>
         distinct cs \<and> (\<forall>c \<in> set cs. CHR ''_'' \<notin> set c)"
    using position_map_categories by blast
qed

text \<open>
  The run for the quarterback of the example in 2019: the completions of his passing
  record, the second of the response, are in the combined statistics.
\<close>

theorem merge_prefixes_fields_witness:
  "snd (fetch_categories example_api ''joe burrow'' ''LSU'' 2019
          [''passing'', ''rushing'', ''receiving'', ''fumbles''] []) =
     Inr (foldl (\<lambda>comb c. merge_response ''joe burrow'' c comb (lsu_responses c)) []
            [''passing'', ''rushing'', ''receiving'', ''fumbles''])
   \<and> map_of (foldl (\<lambda>comb c. merge_response ''joe burrow'' c comb (lsu_responses c)) []
              [''passing'', ''rushing'', ''receiving'', ''fumbles''])
        (''passing'' @ ''_'' @ ''completions'') = Some (PInt 402)
   \<and> map_of (merge_stats ''passing'' [] (to_dict burrow_passing)) (''passing'' @ ''_'' @ ''completions'') =
       Some (PInt 402)
   \<and> set (keys (merge_stats ''passing'' [] (to_dict burrow_passing))) =
       {''passing_season'', ''passing_completions''}"
proof -
  note facts = merge_prefixes_fields [where items = "to_dict burrow_passing" and c = "''passing''"
      and comb = "[]" and pn = "''joe burrow''" and a = example_api and y = 2019 and tn = "''LSU''"
      and cats = "[''passing'', ''rushing'', ''receiving'', ''fumbles'']" and resp = lsu_responses]
  have ok: "\<forall>c \<in> set [''passing'', ''rushing'', ''receiving'', ''fumbles''].
              get_player_season_stats example_api 2019 ''LSU'' c = Inr (lsu_responses c)"
    by (simp add: example_api_def lsu_responses_def)
  have run: "snd (fetch_categories example_api ''joe burrow'' ''LSU'' 2019
          [''passing'', ''rushing'', ''receiving'', ''fumbles''] []) =
     Inr (foldl (\<lambda>comb c. merge_response ''joe burrow'' c comb (lsu_responses c)) []
            [''passing'', ''rushing'', ''receiving'', ''fumbles''])"
    using facts [THEN conjunct2, THEN conjunct2, THEN conjunct2, THEN conjunct2, THEN conjunct2,
        THEN conjunct1, THEN mp, OF ok, THEN conjunct1]
    by (simp only: snd_conv)
  have cats: "distinct [''passing'', ''rushing'', ''receiving'', ''fumbles''] \<and>
      (\<forall>c \<in> set [''passing'', ''rushing'', ''receiving'', ''fumbles'']. CHR ''_'' \<notin> set c)"
    by simp
  have passing: "''passing'' \<in> set [''passing'', ''rushing'', ''receiving'', ''fumbles'']"
    by simp
  have d: "distinct (keys (to_dict burrow_passing))"
    by (simp add: keys_def burrow_passing_def)
  have m: "(''completions'', PInt 402) \<in> set (to_dict burrow_passing) \<and> ''completions'' \<notin> set excluded_fields"
    by (simp add: burrow_passing_def excluded_fields_def)
  have matched: "lsu_responses ''passing'' = [brennan_passing] @ burrow_passing # [] \<and>
      (\<forall>q \<in> set [brennan_passing]. lower (player q) \<noteq> lower ''joe burrow'') \<and>
      lower (player burrow_passing) = lower ''joe burrow'' \<and>
      distinct (keys (to_dict burrow_passing)) \<and>
      (''completions'', PInt 402) \<in> set (to_dict burrow_passing) \<and>
      ''completions'' \<notin> set excluded_fields"
    using d m by (simp add: lsu_responses_def brennan_passing_def burrow_passing_def lower_def char_defs)
  have combined: "map_of (foldl (\<lambda>comb c. merge_response ''joe burrow'' c comb (lsu_responses c)) []
              [''passing'', ''rushing'', ''receiving'', ''fumbles''])
        (''passing'' @ ''_'' @ ''completions'') = Some (PInt 402)"
    using facts [THEN conjunct2, THEN conjunct2, THEN conjunct2, THEN conjunct2, THEN conjunct2,
        THEN conjunct2, THEN conjunct2, THEN conjunct1, rule_format, OF cats passing matched] .
  have copied: "map_of (merge_stats ''passing'' [] (to_dict burrow_passing)) (''passing'' @ ''_'' @ ''completions'') =
     Some (PInt 402)"
    using facts [THEN conjunct2, THEN conjunct1, rule_format, OF d m] .
  have ks: "set (keys (merge_stats ''passing'' [] (to_dict burrow_passing))) =
       {''passing_season'', ''passing_completions''}"
    unfolding facts [THEN conjunct2, THEN conjunct2, THEN conjunct1]
    by (simp add: keys_def burrow_passing_def excluded_fields_def insert_Diff_if)
  show ?thesis
    using run combined copied ks by (intro conjI)
qed

section \<open>The menu (claim C9)\<close>

lemma main_loop_menu: "prefix menu (fst (main_loop a ins))"
  by (cases ins) (auto simp: after_def split: list.splits)

text \<open>
  Claim C9. When \<^verbatim>\<open>int\<close> rejects the year, either choice prints the message about the
  year and the loop goes on with the rest of the input, beginning with the menu. The
  events of that round contain no request.
\<close>

theorem invalid_year_no_request:
  assumes "py_int year_input = None"
  shows "main_loop a (''1'' # team_a # team_b # year_input # rest) =
           after (menu @ compare_prompts @ [Print ''Invalid year. Please enter a valid integer for the year.''])
                 (main_loop a rest)
       \<and> main_loop a (''2'' # player_name # team_name # year_input # rest) =
           after (menu @ lookup_prompts @ [Print ''Invalid year. Please enter a valid integer for the year.''])
                 (main_loop a rest)
       \<and> filter is_request (menu @ compare_prompts @ [Print ''Invalid year. Please enter a valid integer for the year.'']) = []
       \<and> filter is_request (menu @ lookup_prompts @ [Print ''Invalid year. Please enter a valid integer for the year.'']) = []
       \<and> prefix menu (fst (main_loop a rest))"
  using assms main_loop_menu [of a rest]
  by (simp add: choice_compare_def choice_lookup_def invalid_year_def menu_def compare_prompts_def lookup_prompts_def)

text \<open>The year \<open>20x9\<close>, followed by the choice to leave.\<close>

theorem invalid_year_no_request_witness:
  "main_loop example_api [''1'', ''LSU'', ''Clemson'', ''20x9'', ''3''] =
     (menu @ compare_prompts @ [Print ''Invalid year. Please enter a valid integer for the year.''] @
      menu @ [Print ''Exiting. Goodbye!''], Goodbye)
   \<and> main_loop example_api [''2'', ''Joe Burrow'', ''LSU'', ''20x9'', ''3''] =
     (menu @ lookup_prompts @ [Print ''Invalid year. Please enter a valid integer for the year.''] @
      menu @ [Print ''Exiting. Goodbye!''], Goodbye)"
proof -
  have bad: "py_int ''20x9'' = None"
    by code_simp
  have exit: "main_loop example_api [''3''] = (menu @ [Print ''Exiting. Goodbye!''], Goodbye)"
    by simp
  show ?thesis
    using invalid_year_no_request [OF bad, of example_api "''LSU''" "''Clemson''" "[''3'']" "''Joe Burrow''" "''LSU''"]
    by (simp only: exit after_def fst_conv snd_conv append_assoc)
qed

section \<open>Faults of the remote calls (claim C7)\<close>

lemma fetch_categories_stops:
  "(\<forall>c' \<in> set pre. \<not> isl (get_player_season_stats a y t c')) \<Longrightarrow>
   get_player_season_stats a y t c = Inl e \<Longrightarrow>
   fetch_categories a pn t y (pre @ c # post) comb =
     (fst (fetch_categories a pn t y pre comb) @
      [Print (''Fetching '' @ c @ '' stats...''), PlayerSeasonStatsRequest y t c],
      Inl e)"
  by (induction pre arbitrary: comb) (auto simp: Let_def case_prod_beta split: sum.splits)

lemma compare_teams_absent:
  "snd (fetch_advanced_stats a ta y) = None \<or> snd (fetch_advanced_stats a tb y) = None \<Longrightarrow>
   compare_teams a ta tb y =
     Print (''--- Comparing Advanced Season Stats for '' @ ta @ '' vs '' @ tb @
            '' ('' @ str_int y @ '') ---'') #
     fst (fetch_advanced_stats a ta y) @ fst (fetch_advanced_stats a tb y)"
  by (auto simp: compare_teams_def Let_def case_prod_beta split: option.splits)

lemma fetch_down:
  "fetch_advanced_stats example_api ''Down'' 2019 =
     ([Print ''Fetching advanced stats for Down in 2019...'', AdvancedSeasonStatsRequest 2019 ''Down'',
       Print ''CFBD API Error for Down: (503)''], None)"
  by (simp add: fetch_advanced_stats_def fetch_advanced_stats_try_def example_api_def no_token_def
      str_int_def str_nat.simps digit_char_def)

lemma fetch_categories_events:
  "(\<forall>c \<in> set cats. \<not> isl (get_player_season_stats a y t c)) \<Longrightarrow>
   fst (fetch_categories a pn t y cats comb) =
     concat (map (\<lambda>c. [Print (''Fetching '' @ c @ '' stats...''), PlayerSeasonStatsRequest y t c]) cats)"
  by (induction cats arbitrary: comb) (auto simp: Let_def case_prod_beta split: sum.splits)

text \<open>
  Claim C7, as the code has it. A request that raises, or a missing credential, never
  leaves the function that made the call: each function has one \<^verbatim>\<open>try\<close> block, whose
  \<^verbatim>\<open>except\<close> clauses print a message. \<open>fetch_advanced_stats\<close> and
  \<open>get_player_position\<close> then return nothing. In the aggregator the block encloses the
  loop over the categories: after the request that raised only the message is printed, so
  the later categories are not requested and what was merged before is not printed. The
  comparator still fetches the second team when the first fetch gave nothing, and prints
  no section. In each case the menu loop goes on with the rest of the input.
\<close>

theorem faults_are_contained:
  "(\<not> no_token a \<and> get_advanced_season_stats a y t = Inl e \<longrightarrow>
      fetch_advanced_stats a t y =
        ([Print (''Fetching advanced stats for '' @ t @ '' in '' @ str_int y @ ''...''),
          AdvancedSeasonStatsRequest y t,
          Print (case e of
                   ApiException m \<Rightarrow> ''CFBD API Error for '' @ t @ '': '' @ m
                 | PyException m \<Rightarrow> ''An unexpected error occurred for '' @ t @ '': '' @ m)],
         None))
   \<and> (no_token a \<longrightarrow>
      fetch_advanced_stats a t y =
        ([Print (''An unexpected error occurred for '' @ t @ '': '' @ key_not_found)], None))
   \<and> (\<not> no_token a \<and> get_roster a t y = Inl e \<longrightarrow>
      get_player_position a pn t y =
        ([RosterRequest t y,
          Print (case e of
                   ApiException m \<Rightarrow> ''CFBD API Error while fetching roster for '' @ t @ '': '' @ m
                 | PyException m \<Rightarrow> ''An unexpected error occurred while fetching roster: '' @ m)],
         None))
   \<and> ((\<forall>c' \<in> set pre. \<not> isl (get_player_season_stats a y t c')) \<and>
       get_player_season_stats a y t c = Inl e \<longrightarrow>
      fetch_and_print a pn pos t y (pre @ c # post) =
        concat (map (\<lambda>c. [Print (''Fetching '' @ c @ '' stats...''), PlayerSeasonStatsRequest y t c])
                    (pre @ [c])) @
        [Print (case e of
                  ApiException m \<Rightarrow> ''CFBD API Error: '' @ m
                | PyException m \<Rightarrow> ''An unexpected error occurred: '' @ m)])
   \<and> (snd (fetch_advanced_stats a ta y) = None \<or> snd (fetch_advanced_stats a tb y) = None \<longrightarrow>
      compare_teams a ta tb y =
        Print (''--- Comparing Advanced Season Stats for '' @ ta @ '' vs '' @ tb @
               '' ('' @ str_int y @ '') ---'') #
        fst (fetch_advanced_stats a ta y) @ fst (fetch_advanced_stats a tb y))
   \<and> main_loop a (''1'' # ta # tb # yr # rest) =
        after (menu @ compare_prompts @ choice_compare a ta tb yr) (main_loop a rest)
   \<and> main_loop a (''2'' # pn # t # yr # rest) =
        after (menu @ lookup_prompts @ choice_lookup a pn t yr) (main_loop a rest)"
proof (intro conjI)
  show "\<not> no_token a \<and> get_advanced_season_stats a y t = Inl e \<longrightarrow>
      fetch_advanced_stats a t y =
        ([Print (''Fetching advanced stats for '' @ t @ '' in '' @ str_int y @ ''...''),
          AdvancedSeasonStatsRequest y t,
          Print (case e of
                   ApiException m \<Rightarrow> ''CFBD API Error for '' @ t @ '': '' @ m
                 | PyException m \<Rightarrow> ''An unexpected error occurred for '' @ t @ '': '' @ m)],
         None)"
    by (cases e) (simp_all add: fetch_advanced_stats_def fetch_advanced_stats_try_def)
  show "no_token a \<longrightarrow>
      fetch_advanced_stats a t y =
        ([Print (''An unexpected error occurred for '' @ t @ '': '' @ key_not_found)], None)"
    by (simp add: fetch_advanced_stats_def fetch_advanced_stats_try_def)
  show "\<not> no_token a \<and> get_roster a t y = Inl e \<longrightarrow>
      get_player_position a pn t y =
        ([RosterRequest t y,
          Print (case e of
                   ApiException m \<Rightarrow> ''CFBD API Error while fetching roster for '' @ t @ '': '' @ m
                 | PyException m \<Rightarrow> ''An unexpected error occurred while fetching roster: '' @ m)],
         None)"
    by (cases e) (simp_all add: get_player_position_def get_player_position_try_def)
  show "(\<forall>c' \<in> set pre. \<not> isl (get_player_season_stats a y t c')) \<and>
       get_player_season_stats a y t c = Inl e \<longrightarrow>
      fetch_and_print a pn pos t y (pre @ c # post) =
        concat (map (\<lambda>c. [Print (''Fetching '' @ c @ '' stats...''), PlayerSeasonStatsRequest y t c])
                    (pre @ [c])) @
        [Print (case e of
                  ApiException m \<Rightarrow> ''CFBD API Error: '' @ m
                | PyException m \<Rightarrow> ''An unexpected error occurred: '' @ m)]"
    by (cases e) (simp_all add: fetch_and_print_def fetch_categories_stops fetch_categories_events)
  show "snd (fetch_advanced_stats a ta y) = None \<or> snd (fetch_advanced_stats a tb y) = None \<longrightarrow>
      compare_teams a ta tb y =
        Print (''--- Comparing Advanced Season Stats for '' @ ta @ '' vs '' @ tb @
               '' ('' @ str_int y @ '') ---'') #
        fst (fetch_advanced_stats a ta y) @ fst (fetch_advanced_stats a tb y)"
    using compare_teams_absent by blast
  show "main_loop a (''1'' # ta # tb # yr # rest) =
        after (menu @ compare_prompts @ choice_compare a ta tb yr) (main_loop a rest)"
    by simp
  show "main_loop a (''2'' # pn # t # yr # rest) =
        after (menu @ lookup_prompts @ choice_lookup a pn t yr) (main_loop a rest)"
    by simp
qed

text \<open>
  The example API raises for the team \<open>Down\<close> and for the rushing request of 2021; a
  session that compares \<open>Down\<close> with another team still ends by the choice to leave.
\<close>

theorem faults_are_contained_witness:
  "fetch_advanced_stats example_api ''Down'' 2019 =
     ([Print (''Fetching advanced stats for '' @ ''Down'' @ '' in '' @ str_int 2019 @ ''...''),
       AdvancedSeasonStatsRequest 2019 ''Down'',
       Print ''CFBD API Error for Down: (503)''], None)
   \<and> fetch_advanced_stats keyless_api ''LSU'' 2019 =
     ([Print (''An unexpected error occurred for '' @ ''LSU'' @ '': '' @ key_not_found)], None)
   \<and> fetch_and_print example_api ''joe burrow'' ''qb'' ''LSU'' 2021 ([''passing''] @ ''rushing'' # [''receiving'', ''fumbles'']) =
     [Print ''Fetching passing stats...'', PlayerSeasonStatsRequest 2021 ''LSU'' ''passing'',
      Print ''Fetching rushing stats...'', PlayerSeasonStatsRequest 2021 ''LSU'' ''rushing'',
      Print ''An unexpected error occurred: timed out'']
   \<and> compare_teams example_api ''Down'' ''LSU'' 2019 =
     Print (''--- Comparing Advanced Season Stats for '' @ ''Down'' @ '' vs '' @ ''LSU'' @
            '' ('' @ str_int 2019 @ '') ---'') #
     fst (fetch_advanced_stats example_api ''Down'' 2019) @ fst (fetch_advanced_stats example_api ''LSU'' 2019)
   \<and> snd (main_loop example_api (''1'' # ''Down'' # ''LSU'' # ''2019'' # [''3''])) = Goodbye"
proof -
  note facts = faults_are_contained [where a = example_api]
  have tok: "\<not> no_token example_api" "no_token keyless_api"
    by (simp_all add: no_token_def example_api_def keyless_api_def)
  have down: "get_advanced_season_stats example_api 2019 ''Down'' = Inl (ApiException ''(503)'')"
    by (simp add: example_api_def)
  have 1: "fetch_advanced_stats example_api ''Down'' 2019 =
     ([Print (''Fetching advanced stats for '' @ ''Down'' @ '' in '' @ str_int 2019 @ ''...''),
       AdvancedSeasonStatsRequest 2019 ''Down'',
       Print ''CFBD API Error for Down: (503)''], None)"
    using facts [THEN conjunct1, rule_format, OF conjI [OF tok(1) down]] by simp
  have 2: "fetch_advanced_stats keyless_api ''LSU'' 2019 =
     ([Print (''An unexpected error occurred for '' @ ''LSU'' @ '': '' @ key_not_found)], None)"
    using faults_are_contained [THEN conjunct2, THEN conjunct1, rule_format, OF tok(2)] .
  have pre: "\<forall>c' \<in> set [''passing'']. \<not> isl (get_player_season_stats example_api 2021 ''LSU'' c')"
    by (simp add: example_api_def)
  have rushing: "get_player_season_stats example_api 2021 ''LSU'' ''rushing'' = Inl (PyException ''timed out'')"
    by (simp add: example_api_def)
  have 3: "fetch_and_print example_api ''joe burrow'' ''qb'' ''LSU'' 2021 ([''passing''] @ ''rushing'' # [''receiving'', ''fumbles'']) =
     [Print ''Fetching passing stats...'', PlayerSeasonStatsRequest 2021 ''LSU'' ''passing'',
      Print ''Fetching rushing stats...'', PlayerSeasonStatsRequest 2021 ''LSU'' ''rushing'',
      Print ''An unexpected error occurred: timed out'']"
    using facts [THEN conjunct2, THEN conjunct2, THEN conjunct2, THEN conjunct1, THEN mp,
        OF conjI [OF pre rushing]] by simp
  have absent: "snd (fetch_advanced_stats example_api ''Down'' 2019) = None \<or>
      snd (fetch_advanced_stats example_api ''LSU'' 2019) = None"
    by (simp add: fetch_down)
  have 4: "compare_teams example_api ''Down'' ''LSU'' 2019 =
     Print (''--- Comparing Advanced Season Stats for '' @ ''Down'' @ '' vs '' @ ''LSU'' @
            '' ('' @ str_int 2019 @ '') ---'') #
     fst (fetch_advanced_stats example_api ''Down'' 2019) @ fst (fetch_advanced_stats example_api ''LSU'' 2019)"
    using facts [THEN conjunct2, THEN conjunct2, THEN conjunct2, THEN conjunct2, THEN conjunct1,
        rule_format, OF absent] .
  have exit: "snd (main_loop example_api [''3'']) = Goodbye"
    by simp
  have 5: "snd (main_loop example_api (''1'' # ''Down'' # ''LSU'' # ''2019'' # [''3''])) = Goodbye"
    unfolding facts [THEN conjunct2, THEN conjunct2, THEN conjunct2, THEN conjunct2, THEN conjunct2,
        THEN conjunct1]
    by (simp only: after_def snd_conv exit)
  show ?thesis using 1 2 3 4 5 by (intro conjI)
qed

text \<open>
  The claim says that a fault is caught at the point of the call and ends only that
  fetch. In the run of 2021 the rushing request raises: the requests for receiving and
  fumbles, which would succeed, are never made, and the passing statistics that were
  merged are never printed.
\<close>

theorem lookup_aborted_counterexample:
  "get_player_season_stats example_api 2021 ''LSU'' ''receiving'' = Inr [] \<and>
   get_player_season_stats example_api 2021 ''LSU'' ''fumbles'' = Inr [] \<and>
   snd (fetch_categories example_api ''joe burrow'' ''LSU'' 2021 [''passing''] []) =
     Inr [(''passing_season'', PInt 2019), (''passing_completions'', PInt 402)] \<and>
   get_player_stats_by_name example_api ''joe burrow'' ''LSU'' 2021 =
     [Print ''--- Searching for stats for joe burrow on LSU (2021) ---'',
      RosterRequest ''LSU'' 2021,
      Print ''Fetching passing stats...'', PlayerSeasonStatsRequest 2021 ''LSU'' ''passing'',
      Print ''Fetching rushing stats...'', PlayerSeasonStatsRequest 2021 ''LSU'' ''rushing'',
      Print ''An unexpected error occurred: timed out'']"
proof -
  have ne: "''qb'' \<noteq> []" "[''passing'', ''rushing'', ''receiving'', ''fumbles''] \<noteq> []"
    by simp_all
  have y: "str_int 2021 = ''2021''"
    by (simp add: str_int_def str_nat.simps digit_char_def)
  have merged: "snd (fetch_categories example_api ''joe burrow'' ''LSU'' 2021 [''passing''] []) =
     Inr [(''passing_season'', PInt 2019), (''passing_completions'', PInt 402)]"
    by (simp add: example_api_def merge_response_def brennan_passing_def burrow_passing_def
        excluded_fields_def lower_def char_defs)
  have run: "get_player_stats_by_name example_api ''joe burrow'' ''LSU'' 2021 =
     [Print ''--- Searching for stats for joe burrow on LSU (2021) ---'',
      RosterRequest ''LSU'' 2021,
      Print ''Fetching passing stats...'', PlayerSeasonStatsRequest 2021 ''LSU'' ''passing'',
      Print ''Fetching rushing stats...'', PlayerSeasonStatsRequest 2021 ''LSU'' ''rushing'',
      Print ''An unexpected error occurred: timed out'']"
    unfolding stats_by_name_resolved [OF position_burrow ne(1) categories_qb ne(2)] y
    by (simp add: fetch_and_print_def example_api_def)
  show ?thesis
    using merged run by (simp add: example_api_def)
qed

end
